theory Spec2Isabelle
  imports Main "HOL-Library.Sublist"
begin

section \<open>Python strings\<close>

text \<open>
  Text is a list of bytes (UTF-8). The needles searched for by the program are ASCII, and
  an ASCII byte never occurs inside a multi-byte UTF-8 sequence, so byte-wise containment
  agrees with Python's code-point containment. \<open>str.lower\<close> is modelled on ASCII
  letters (setting bit 5 of \<open>A\<close>..\<open>Z\<close>) and \<open>str.strip\<close> on ASCII white space (codes
  9..13 and 28..32): Python also lower-cases letters beyond ASCII and strips Unicode white
  space such as U+00A0 and U+3000, which are left as they are here. The difference is
  confined to the text handed on to the handlers and to the oracle. It changes no test of
  the program: each needle begins and ends with an ASCII character that is not white space,
  and the only code points whose lower case contains an ASCII character, U+0130 and U+212A,
  give \<open>i\<close> followed by U+0307 and \<open>k\<close>, which complete no needle.
\<close>

definition char_lower :: "char \<Rightarrow> char" where
  "char_lower c =
     (let n = (of_char c :: nat)
      in if 65 \<le> n \<and> n \<le> 90
         then Char (digit0 c) (digit1 c) (digit2 c) (digit3 c) (digit4 c) True (digit6 c) (digit7 c)
         else c)"

definition py_lower :: "string \<Rightarrow> string" where
  "py_lower s = map char_lower s"

definition is_space :: "char \<Rightarrow> bool" where
  "is_space c = (let n = (of_char c :: nat) in (9 \<le> n \<and> n \<le> 13) \<or> (28 \<le> n \<and> n \<le> 32))"

definition py_strip :: "string \<Rightarrow> string" where
  "py_strip s = rev (dropWhile is_space (rev (dropWhile is_space s)))"

text \<open>\<open>needle in haystack\<close> on strings.\<close>

fun py_in :: "string \<Rightarrow> string \<Rightarrow> bool" where
  "py_in needle [] = (needle = [])"
| "py_in needle (c # cs) = (prefix needle (c # cs) \<or> py_in needle cs)"

section \<open>The sheets (Progress Store)\<close>

text \<open>
  A worksheet is the list of its records in row order (\<open>get_all_records\<close>); the columns read
  by the program are the fields of a record, numeric columns hold integers.
\<close>

record user_row =
  phone_no :: int
  eng_name :: string
  day_of_training :: int
  current_question_number :: int
  current_vocab_number :: int
  current_open_question_number :: int

record comprehension_row =
  c_day_of_training :: int
  c_question_id :: int
  passage_text :: string
  c_question_text :: string
  c_answer_text :: string

record open_row =
  o_day_of_training :: int
  o_question_id :: int
  o_question_text :: string
  learning_objective :: string
  o_answer_text :: string

record vocab_row =
  Day :: int
  Vocabulary :: string
  PartOfSpeech :: string
  Examples :: string
  ChineseExplaination :: string
  Tips :: string
  Roots :: string
  MemStories :: string

text \<open>Every \<open>raise\<close> of the program is one constructor; \<open>APIError\<close> is a failing LLM call.\<close>

datatype error =
    PhoneNotFound int
  | StudentNotFound int
  | NoPassage int
  | CannotFindQuestion
  | CannotFindOpenQuestion
  | CannotFindObjective
  | CannotFindOpenAnswer
  | IndexError
  | KeyError int
  | UnexpectedLLMResponse string
  | AttemptNotBetween1And3
  | AttemptNeither1Nor2
  | APIError

fun row_index_from :: "nat \<Rightarrow> user_row list \<Rightarrow> int \<Rightarrow> error + nat" where
  "row_index_from i [] phone_number = Inl (PhoneNotFound phone_number)"
| "row_index_from i (row # rows) phone_number =
     (if phone_no row = phone_number then Inr i else row_index_from (Suc i) rows phone_number)"

definition get_row_index_by_phone :: "user_row list \<Rightarrow> int \<Rightarrow> error + nat" where
  "get_row_index_by_phone sheet phone_number = row_index_from 2 sheet phone_number"

definition get_student_name_by_phone :: "user_row list \<Rightarrow> int \<Rightarrow> error + string" where
  "get_student_name_by_phone sheet_user phone_number =
     (case find (\<lambda>row. phone_no row = phone_number) sheet_user of
        Some row \<Rightarrow> Inr (eng_name row)
      | None \<Rightarrow> Inl (StudentNotFound phone_number))"

text \<open>
  The opening lines shared by every reader: locate the student, then take
  \<open>get_all_records()[row_index - 2]\<close>.
\<close>

definition with_user_data :: "user_row list \<Rightarrow> int \<Rightarrow> (user_row \<Rightarrow> error + 'a) \<Rightarrow> error + 'a" where
  "with_user_data sheet_user phone_number k =
     (case get_row_index_by_phone sheet_user phone_number of
        Inl e \<Rightarrow> Inl e
      | Inr row_index \<Rightarrow> k (sheet_user ! (row_index - 2)))"

definition get_passage :: "user_row list \<Rightarrow> comprehension_row list \<Rightarrow> int \<Rightarrow> error + string" where
  "get_passage sheet_user sheet_comprehension phone_number =
     with_user_data sheet_user phone_number (\<lambda>user_data.
       let day = day_of_training user_data
       in case find (\<lambda>row. c_day_of_training row = day) sheet_comprehension of
            Some row \<Rightarrow> Inr (passage_text row)
          | None \<Rightarrow> Inl (NoPassage day))"

definition get_current_question :: "user_row list \<Rightarrow> comprehension_row list \<Rightarrow> int \<Rightarrow> error + string" where
  "get_current_question sheet_user sheet_comprehension phone_number =
     with_user_data sheet_user phone_number (\<lambda>user_data.
       let day = day_of_training user_data; q_num = current_question_number user_data
       in case find (\<lambda>row. c_day_of_training row = day \<and> c_question_id row = q_num) sheet_comprehension of
            Some row \<Rightarrow> Inr (c_question_text row)
          | None \<Rightarrow> Inl CannotFindQuestion)"

definition get_current_answer :: "user_row list \<Rightarrow> comprehension_row list \<Rightarrow> int \<Rightarrow> error + string" where
  "get_current_answer sheet_user sheet_comprehension phone_number =
     with_user_data sheet_user phone_number (\<lambda>user_data.
       let day = day_of_training user_data; q_num = current_question_number user_data
       in case find (\<lambda>row. c_day_of_training row = day \<and> c_question_id row = q_num) sheet_comprehension of
            Some row \<Rightarrow> Inr (c_answer_text row)
          | None \<Rightarrow> Inl CannotFindQuestion)"

definition get_open_question :: "user_row list \<Rightarrow> open_row list \<Rightarrow> int \<Rightarrow> error + string" where
  "get_open_question sheet_user sheet_open_reading phone_number =
     with_user_data sheet_user phone_number (\<lambda>user_data.
       let day = day_of_training user_data; q_num = current_open_question_number user_data
       in case find (\<lambda>row. o_day_of_training row = day \<and> o_question_id row = q_num) sheet_open_reading of
            Some row \<Rightarrow> Inr (o_question_text row)
          | None \<Rightarrow> Inl CannotFindOpenQuestion)"

definition get_open_question_objective :: "user_row list \<Rightarrow> open_row list \<Rightarrow> int \<Rightarrow> error + string" where
  "get_open_question_objective sheet_user sheet_open_reading phone_number =
     with_user_data sheet_user phone_number (\<lambda>user_data.
       let day = day_of_training user_data; q_num = current_open_question_number user_data
       in case find (\<lambda>row. o_day_of_training row = day \<and> o_question_id row = q_num) sheet_open_reading of
            Some row \<Rightarrow> Inr (learning_objective row)
          | None \<Rightarrow> Inl CannotFindObjective)"

definition get_open_question_ans :: "user_row list \<Rightarrow> open_row list \<Rightarrow> int \<Rightarrow> error + string" where
  "get_open_question_ans sheet_user sheet_open_reading phone_number =
     with_user_data sheet_user phone_number (\<lambda>user_data.
       let day = day_of_training user_data; q_num = current_open_question_number user_data
       in case find (\<lambda>row. o_day_of_training row = day \<and> o_question_id row = q_num) sheet_open_reading of
            Some row \<Rightarrow> Inr (o_answer_text row)
          | None \<Rightarrow> Inl CannotFindOpenAnswer)"

text \<open>
  \<open>vocab_data[vocab_index]\<close> with Python's indexing: a negative index counts from the end,
  and an index out of range raises.
\<close>

definition get_current_vocab_row :: "user_row list \<Rightarrow> vocab_row list \<Rightarrow> int \<Rightarrow> error + vocab_row option" where
  "get_current_vocab_row sheet_user sheet_vocab phone_number =
     with_user_data sheet_user phone_number (\<lambda>user_data.
       let day = day_of_training user_data;
           vocab_index = current_vocab_number user_data;
           vocab_data = filter (\<lambda>v. Day v = day) sheet_vocab;
           n = int (length vocab_data)
       in if vocab_index \<ge> n then Inr None
          else if 0 \<le> vocab_index then Inr (Some (vocab_data ! nat vocab_index))
          else if 0 \<le> n + vocab_index then Inr (Some (vocab_data ! nat (n + vocab_index)))
          else Inl IndexError)"

datatype column = Col_current_question_number | Col_current_vocab_number | Col_current_open_question_number

fun update_cell :: "column \<Rightarrow> int \<Rightarrow> user_row \<Rightarrow> user_row" where
  "update_cell Col_current_question_number v row = row\<lparr>current_question_number := v\<rparr>"
| "update_cell Col_current_vocab_number v row = row\<lparr>current_vocab_number := v\<rparr>"
| "update_cell Col_current_open_question_number v row = row\<lparr>current_open_question_number := v\<rparr>"

definition update_sheet :: "user_row list \<Rightarrow> int \<Rightarrow> column \<Rightarrow> int \<Rightarrow> error + user_row list" where
  "update_sheet sheet phone_number col data =
     (case get_row_index_by_phone sheet phone_number of
        Inl e \<Rightarrow> Inl e
      | Inr row_index \<Rightarrow> Inr (sheet[row_index - 2 := update_cell col data (sheet ! (row_index - 2))]))"

definition advance_question_progress_sheet :: "user_row list \<Rightarrow> int \<Rightarrow> error + user_row list" where
  "advance_question_progress_sheet sheet_user phone_number =
     with_user_data sheet_user phone_number (\<lambda>data.
       let new_number = current_question_number data + 1
       in update_sheet sheet_user phone_number Col_current_question_number new_number)"

definition advance_open_question_progress_sheet :: "user_row list \<Rightarrow> int \<Rightarrow> error + user_row list" where
  "advance_open_question_progress_sheet sheet_user phone_number =
     with_user_data sheet_user phone_number (\<lambda>user_data.
       let new_number = current_open_question_number user_data + 1
       in update_sheet sheet_user phone_number Col_current_open_question_number new_number)"

definition advance_vocab_index_sheet :: "user_row list \<Rightarrow> int \<Rightarrow> error + user_row list" where
  "advance_vocab_index_sheet sheet_user phone_number =
     with_user_data sheet_user phone_number (\<lambda>user_data.
       let current_index = current_vocab_number user_data
       in update_sheet sheet_user phone_number Col_current_vocab_number (current_index + 1))"

section \<open>The external collaborators\<close>

text \<open>
  The language model and the message transport are oracles. A request names the function
  that builds the prompt and carries the values the prompt is built from; the oracle answers
  with \<open>response.choices[0].message.content\<close> or the call raises. While one inbound message
  is handled no request is issued twice, so the oracle of a turn is a function of the request;
  every turn has its own oracle. The transport answers a post with an HTTP status, or
  \<open>requests.post\<close> raises; it is indexed by the length of the trace at the moment of the
  post, so two posts of one turn may fare differently. The three content worksheets are the
  module-level globals of the webhook; they are only read.
\<close>

datatype llm_request =
    Req_greet_student string
  | Req_evaluate_answer string string
  | Req_is_student_answering_question string string
  | Req_is_reply_relevant_to_learning string string
  | Req_generate_answer_to_student_question string
  | Req_handle_irrelevant_input string
  | Req_generate_question_message string string string
  | Req_give_hint_or_explanation string string string string int
  | Req_ask_why_correct string string string
  | Req_respond_to_reflection string string string string
  | Req_ask_open_question string
  | Req_respond_to_open_answer string string string string
  | Req_ask_vocab_meaning_question vocab_row
  | Req_give_vocab_correct_reply vocab_row
  | Req_give_vocab_hint_or_explanation vocab_row string int

datatype llm_response = Content string | APIFailure

datatype transport_result = Responded int | TransportRaised

record env =
  chat :: "llm_request \<Rightarrow> llm_response"
  transport :: "nat \<Rightarrow> int \<Rightarrow> string \<Rightarrow> transport_result"
  vocab_sheet :: "vocab_row list"
  close_reading_sheet :: "comprehension_row list"
  open_reading_sheet :: "open_row list"

definition content :: "env \<Rightarrow> llm_request \<Rightarrow> error + string" where
  "content e req = (case chat e req of Content c \<Rightarrow> Inr c | APIFailure \<Rightarrow> Inl APIError)"

definition stripped_content :: "env \<Rightarrow> llm_request \<Rightarrow> error + string" where
  "stripped_content e req = (case content e req of Inl err \<Rightarrow> Inl err | Inr c \<Rightarrow> Inr (py_strip c))"

definition greet_student :: "env \<Rightarrow> string \<Rightarrow> error + string" where
  "greet_student e student_name = stripped_content e (Req_greet_student student_name)"

definition is_correct_true :: string where
  "is_correct_true = [CHR 0x22] @ ''is_correct'' @ [CHR 0x22] @ '': true''"

definition is_correct_false :: string where
  "is_correct_false = [CHR 0x22] @ ''is_correct'' @ [CHR 0x22] @ '': false''"

definition evaluate_answer :: "env \<Rightarrow> string \<Rightarrow> string \<Rightarrow> error + bool" where
  "evaluate_answer e user_answer correct_answer =
     (case stripped_content e (Req_evaluate_answer user_answer correct_answer) of
        Inl err \<Rightarrow> Inl err
      | Inr reply \<Rightarrow>
          if py_in is_correct_true (py_lower reply) then Inr True
          else if py_in is_correct_false (py_lower reply) then Inr False
          else Inl (UnexpectedLLMResponse reply))"

definition is_student_answering_question :: "env \<Rightarrow> string \<Rightarrow> string \<Rightarrow> error + bool" where
  "is_student_answering_question e user_reply question_prompt =
     (case content e (Req_is_student_answering_question user_reply question_prompt) of
        Inl err \<Rightarrow> Inl err
      | Inr c \<Rightarrow> Inr (py_in ([CHR 0x22] @ ''answered'' @ [CHR 0x22] @ '': true'') (py_lower c)))"

definition is_reply_relevant_to_learning :: "env \<Rightarrow> string \<Rightarrow> string \<Rightarrow> error + bool" where
  "is_reply_relevant_to_learning e user_reply current_question =
     (case content e (Req_is_reply_relevant_to_learning user_reply current_question) of
        Inl err \<Rightarrow> Inl err
      | Inr c \<Rightarrow> Inr (py_in ([CHR 0x22] @ ''relevant'' @ [CHR 0x22] @ '': true'') (py_lower c)))"

definition generate_answer_to_student_question :: "env \<Rightarrow> string \<Rightarrow> error + string" where
  "generate_answer_to_student_question e user_question =
     stripped_content e (Req_generate_answer_to_student_question user_question)"

definition vocab_done_text :: string where
  "vocab_done_text = [CHR 0xF0, CHR 0x9F, CHR 0x8E, CHR 0x89] @ '' '' @ [CHR 0xE4, CHR 0xBD,
     CHR 0xA0, CHR 0xE5, CHR 0xB7, CHR 0xB2, CHR 0xE7, CHR 0xB6, CHR 0x93, CHR 0xE5,
     CHR 0xAE, CHR 0x8C, CHR 0xE6, CHR 0x88, CHR 0x90, CHR 0xE5, CHR 0x93, CHR 0x82,
     CHR 0xE4, CHR 0xBB, CHR 0x8A, CHR 0xE6, CHR 0x97, CHR 0xA5, CHR 0xE6, CHR 0x89,
     CHR 0x80, CHR 0xE6, CHR 0x9C, CHR 0x89, CHR 0xE7, CHR 0x94, CHR 0x9F, CHR 0xE5,
     CHR 0xAD, CHR 0x97, CHR 0xE5, CHR 0x95, CHR 0xA6, CHR 0xEF, CHR 0xBC, CHR 0x8C,
     CHR 0xE5, CHR 0x81, CHR 0x9A, CHR 0xE5, CHR 0xBE, CHR 0x97, CHR 0xE5, CHR 0xA5,
     CHR 0xBD, CHR 0xE5, CHR 0x8F, CHR 0xBB, CHR 0xEF, CHR 0xBC, CHR 0x81, CHR 0xE8,
     CHR 0xBC, CHR 0xB8, CHR 0xE5, CHR 0x85, CHR 0xA5] @ '' '' @ [CHR 0x27] @ ''warm up'' @
     [CHR 0x27] @ '' '' @ [CHR 0xE9, CHR 0x96, CHR 0x8B, CHR 0xE5, CHR 0xA7, CHR 0x8B,
     CHR 0xE4, CHR 0xBB, CHR 0x8A, CHR 0xE6, CHR 0x97, CHR 0xA5, CHR 0xE6, CHR 0x97,
     CHR 0xA2] @ '' Reading Warm-up Exercise '' @ [CHR 0xE5, CHR 0x95, CHR 0xA6] @ ''~''"

definition vocab_reentry_text :: string where
  "vocab_reentry_text = [CHR 0xE5, CHR 0x90, CHR 0x84, CHR 0xE4, CHR 0xBD, CHR 0x8D,
     CHR 0xE5, CHR 0x90, CHR 0x8C, CHR 0xE5, CHR 0xAD, CHR 0xB8, CHR 0xE4, CHR 0xBB,
     CHR 0x8A, CHR 0xE6, CHR 0x9C, CHR 0x9D, CHR 0xE4, CHR 0xBF, CHR 0xBE, CHR 0xE5,
     CHR 0x92, CHR 0x97, CHR 0xE5, CHR 0xA4, CHR 0xA7, CHR 0xE5, CHR 0xAE, CHR 0xB6,
     CHR 0xE5, CHR 0xB9, CHR 0xBE, CHR 0xE5, CHR 0x80, CHR 0x8B, CHR 0xE7, CHR 0x94,
     CHR 0x9F, CHR 0xE5, CHR 0xAD, CHR 0x97, CHR 0xEF, CHR 0xBC, CHR 0x8C, CHR 0xE5,
     CHR 0x94, CHR 0x94, CHR 0xE7, CHR 0x9F, CHR 0xA5, CHR 0xE9, CHR 0x81, CHR 0x93,
     CHR 0xE5, CHR 0xA4, CHR 0xA7, CHR 0xE5, CHR 0xAE, CHR 0xB6, CHR 0xE8, CHR 0xA8,
     CHR 0x98, CHR 0xE5, CHR 0xBE, CHR 0x97, CHR 0xE5, CHR 0xB9, CHR 0xBE, CHR 0xE5,
     CHR 0xA4, CHR 0x9A, CHR 0xE5, CHR 0x91, CHR 0xA2, CHR 0xEF, CHR 0xBC, CHR 0x9F,
     CHR 0xE7, CHR 0x84, CHR 0xA1, CHR 0xE8, CHR 0xAB, CHR 0x96, CHR 0xE4, CHR 0xBD,
     CHR 0xA0, CHR 0xE5, CHR 0xAD, CHR 0xB8, CHR 0xE5, CHR 0x92, CHR 0x97, CHR 0xE5,
     CHR 0xB9, CHR 0xBE, CHR 0xE5, CHR 0xA4, CHR 0x9A, CHR 0xE9, CHR 0x83, CHR 0xBD,
     CHR 0xE5, CHR 0x94, CHR 0x94, CHR 0xE7, CHR 0xB7, CHR 0x8A, CHR 0xE8, CHR 0xA6,
     CHR 0x81, CHR 0xEF, CHR 0xBC, CHR 0x8C, CHR 0xE8, CHR 0xB7, CHR 0x9F, CHR 0xE4,
     CHR 0xBD, CHR 0x8F, CHR 0xE8, CHR 0x90, CHR 0xBD, CHR 0xE5, CHR 0x9A, CHR 0x9F,
     CHR 0xE6, CHR 0x88, CHR 0x91, CHR 0xE5, CHR 0x93, CHR 0x8B, CHR 0xE4, CHR 0xB8,
     CHR 0x80, CHR 0xE9, CHR 0xBD, CHR 0x8A, CHR 0xE5, CHR 0x8E, CHR 0xBB, CHR 0xE8,
     CHR 0x83, CHR 0x8C, CHR 0xE5, CHR 0x91, CHR 0xA2, CHR 0xE5, CHR 0xB9, CHR 0xBE,
     CHR 0xE9, CHR 0x9A, CHR 0xBB, CHR 0xE7, CHR 0x94, CHR 0x9F, CHR 0xE5, CHR 0xAD,
     CHR 0x97, CHR 0xE5, CHR 0x95, CHR 0xA6, CHR 0xEF, CHR 0xBC, CHR 0x81, CHR 0x0A] @
     ''            '' @ [CHR 0x0A] @ ''            '' @ [CHR 0xE4, CHR 0xBD, CHR 0xA0,
     CHR 0xE6, CHR 0xBA, CHR 0x96, CHR 0xE5, CHR 0x82, CHR 0x99, CHR 0xE5, CHR 0xA5,
     CHR 0xBD, CHR 0xE5, CHR 0x98, CHR 0x85, CHR 0xE6, CHR 0x99, CHR 0x82, CHR 0xE5,
     CHR 0x80, CHR 0x99, CHR 0xE8, CHR 0xAB, CHR 0x8B, CHR 0xE5, CHR 0x85, CHR 0x88,
     CHR 0xE8, CHR 0xBC, CHR 0xB8, CHR 0xE5, CHR 0x85, CHR 0xA5] @ '' '' @ [CHR 0x27] @
     ''vocab'' @ [CHR 0x27] @ '' '' @ [CHR 0xE9, CHR 0x96, CHR 0x8B, CHR 0xE5, CHR 0xA7,
     CHR 0x8B, CHR 0xE4, CHR 0xBB, CHR 0x8A, CHR 0xE6, CHR 0x97, CHR 0xA5, CHR 0xE7,
     CHR 0x94, CHR 0x9F, CHR 0xE5, CHR 0xAD, CHR 0x97, CHR 0xE5, CHR 0xAD, CHR 0xB8,
     CHR 0xE7, CHR 0xBF, CHR 0x92] @ '' '' @ [CHR 0xE2, CHR 0x9C, CHR 0x8D, CHR 0xEF,
     CHR 0xB8, CHR 0x8F]"

definition reading_reentry_text :: string where
  "reading_reentry_text = [CHR 0xE8, CHR 0xAB, CHR 0x8B, CHR 0xE5, CHR 0x85, CHR 0x88,
     CHR 0xE8, CHR 0xBC, CHR 0xB8, CHR 0xE5, CHR 0x85, CHR 0xA5] @ '' '' @ [CHR 0x27] @
     ''reading'' @ [CHR 0x27] @ '' '' @ [CHR 0xE9, CHR 0x96, CHR 0x8B, CHR 0xE5, CHR 0xA7,
     CHR 0x8B, CHR 0xE4, CHR 0xBB, CHR 0x8A, CHR 0xE6, CHR 0x97, CHR 0xA5, CHR 0xE9,
     CHR 0x96, CHR 0xB1, CHR 0xE8, CHR 0xAE, CHR 0x80, CHR 0xE4, CHR 0xBB, CHR 0xBB,
     CHR 0xE5, CHR 0x8B, CHR 0x99] @ '' '' @ [CHR 0xE2, CHR 0x9C, CHR 0x8D, CHR 0xEF,
     CHR 0xB8, CHR 0x8F]"

definition retry_prefix_text :: string where
  "retry_prefix_text = [CHR 0xE2, CHR 0x9D, CHR 0x93, CHR 0xE5, CHR 0x86, CHR 0x8D,
     CHR 0xE8, CHR 0xA9, CHR 0xA6, CHR 0xE5, CHR 0x90, CHR 0x93, CHR 0xE5, CHR 0x9B,
     CHR 0x9E, CHR 0xE7, CHR 0xAD, CHR 0x94, CHR 0xE5, CHR 0x91, CHR 0xA2, CHR 0xE6,
     CHR 0xA2, CHR 0x9D, CHR 0xE5, CHR 0x95, CHR 0x8F, CHR 0xE9, CHR 0xA1, CHR 0x8C,
     CHR 0xE5, CHR 0x95, CHR 0xA6, CHR 0xEF, CHR 0xBC, CHR 0x9A]"

definition open_reentry_text :: string where
  "open_reentry_text = [CHR 0xE8, CHR 0xAB, CHR 0x8B, CHR 0xE5, CHR 0x85, CHR 0x88,
     CHR 0xE8, CHR 0xBC, CHR 0xB8, CHR 0xE5, CHR 0x85, CHR 0xA5] @ '' '' @ [CHR 0x27] @
     ''Warm up'' @ [CHR 0x27] @ '' '' @ [CHR 0xE9, CHR 0x96, CHR 0x8B, CHR 0xE5, CHR 0xA7,
     CHR 0x8B, CHR 0xE9, CHR 0x96, CHR 0x8B, CHR 0xE6, CHR 0x94, CHR 0xBE, CHR 0xE5,
     CHR 0xBC, CHR 0x8F, CHR 0xE9, CHR 0x96, CHR 0xB1, CHR 0xE8, CHR 0xAE, CHR 0x80,
     CHR 0xE4, CHR 0xBB, CHR 0xBB, CHR 0xE5, CHR 0x8B, CHR 0x99] @ '' '' @ [CHR 0xE2,
     CHR 0x9C, CHR 0x8D, CHR 0xEF, CHR 0xB8, CHR 0x8F]"

definition open_redirect_text :: string where
  "open_redirect_text = [CHR 0xE5, CHR 0x91, CHR 0xA2, CHR 0xE5, CHR 0x80, CHR 0x8B,
     CHR 0xE5, CHR 0x95, CHR 0x8F, CHR 0xE9, CHR 0xA1, CHR 0x8C, CHR 0xE5, CHR 0xA5,
     CHR 0xBD, CHR 0xE6, CHR 0x9C, CHR 0x89, CHR 0xE8, CHR 0xB6, CHR 0xA3, CHR 0xEF,
     CHR 0xBC, CHR 0x8C, CHR 0xE4, CHR 0xBD, CHR 0x86, CHR 0xE4, CHR 0xB8, CHR 0x8D,
     CHR 0xE5, CHR 0xA6, CHR 0x82, CHR 0xE6, CHR 0x88, CHR 0x91, CHR 0xE5, CHR 0x93,
     CHR 0x8B, CHR 0xE5, CHR 0x85, CHR 0x88, CHR 0xE9, CHR 0x9B, CHR 0x86, CHR 0xE4,
     CHR 0xB8, CHR 0xAD, CHR 0xE8, CHR 0xA8, CHR 0x8E, CHR 0xE8, CHR 0xAB, CHR 0x96,
     CHR 0xE6, CHR 0x96, CHR 0x87, CHR 0xE7, CHR 0xAB, CHR 0xA0, CHR 0xE5, CHR 0x85,
     CHR 0xA7, CHR 0xE5, CHR 0xAE, CHR 0xB9] @ '' '' @ [CHR 0xF0, CHR 0x9F, CHR 0x98,
     CHR 0x84]"

definition irrelevant_fallback_text :: string where
  "irrelevant_fallback_text = [CHR 0xE5, CHR 0x91, CHR 0xA2, CHR 0xE5, CHR 0x80, CHR 0x8B,
     CHR 0xE5, CHR 0x95, CHR 0x8F, CHR 0xE9, CHR 0xA1, CHR 0x8C, CHR 0xE5, CHR 0xA5,
     CHR 0xBD, CHR 0xE6, CHR 0x9C, CHR 0x89, CHR 0xE8, CHR 0xB6, CHR 0xA3, CHR 0xEF,
     CHR 0xBC, CHR 0x8C, CHR 0xE4, CHR 0xB8, CHR 0x8D, CHR 0xE9, CHR 0x81, CHR 0x8E,
     CHR 0xE6, CHR 0x88, CHR 0x91, CHR 0xE5, CHR 0x93, CHR 0x8B, CHR 0xE8, CHR 0x80,
     CHR 0x8C, CHR 0xE5, CHR 0xAE, CHR 0xB6, CHR 0xE5, CHR 0xB0, CHR 0x88, CHR 0xE5,
     CHR 0xBF, CHR 0x83, CHR 0xE5, CHR 0xAD, CHR 0xB8, CHR 0xE8, CHR 0x8B, CHR 0xB1,
     CHR 0xE6, CHR 0x96, CHR 0x87, CHR 0xE5, CHR 0x85, CHR 0x88, CHR 0xE5, CHR 0x95,
     CHR 0xA6] @ '' '' @ [CHR 0xF0, CHR 0x9F, CHR 0x98, CHR 0x8A]"

definition open_answer_fallback_text :: string where
  "open_answer_fallback_text = [CHR 0xE5, CHR 0xA4, CHR 0x9A, CHR 0xE8, CHR 0xAC, CHR 0x9D,
     CHR 0xE4, CHR 0xBD, CHR 0xA0, CHR 0xE5, CHR 0x98, CHR 0x85, CHR 0xE5, CHR 0x88,
     CHR 0x86, CHR 0xE4, CHR 0xBA, CHR 0xAB, CHR 0xEF, CHR 0xBC, CHR 0x8C, CHR 0xE6,
     CHR 0x88, CHR 0x91, CHR 0xE5, CHR 0x93, CHR 0x8B, CHR 0xE8, CHR 0x80, CHR 0x8C,
     CHR 0xE5, CHR 0xAE, CHR 0xB6, CHR 0xE4, CHR 0xB8, CHR 0x80, CHR 0xE9, CHR 0xBD,
     CHR 0x8A, CHR 0xE6, CHR 0x9C, CHR 0x9B, CHR 0xE4, CHR 0xB8, CHR 0x80, CHR 0xE6,
     CHR 0x9C, CHR 0x9B, CHR 0xE4, CHR 0xBB, CHR 0x8A, CHR 0xE6, CHR 0x97, CHR 0xA5,
     CHR 0xE5, CHR 0x98, CHR 0x85, CHR 0xE5, CHR 0xAD, CHR 0xB8, CHR 0xE7, CHR 0xBF,
     CHR 0x92, CHR 0xE9, CHR 0x87, CHR 0x8D, CHR 0xE9, CHR 0xBB, CHR 0x9E, CHR 0xE5,
     CHR 0x95, CHR 0xA6, CHR 0xEF, CHR 0xBD, CHR 0x9E, CHR 0xF0, CHR 0x9F, CHR 0x98,
     CHR 0x8A]"


text \<open>The two generators with a \<open>try\<close>/\<open>except\<close> substitute a fixed text on any failure.\<close>

definition handle_irrelevant_input_with_llm :: "env \<Rightarrow> string \<Rightarrow> string" where
  "handle_irrelevant_input_with_llm e user_input =
     (case stripped_content e (Req_handle_irrelevant_input user_input) of
        Inr t \<Rightarrow> t
      | Inl err \<Rightarrow> irrelevant_fallback_text)"

definition respond_to_open_answer :: "env \<Rightarrow> string \<Rightarrow> string \<Rightarrow> string \<Rightarrow> string \<Rightarrow> string" where
  "respond_to_open_answer e user_answer question learning_objectives answer =
     (case stripped_content e (Req_respond_to_open_answer user_answer question learning_objectives answer) of
        Inr t \<Rightarrow> t
      | Inl err \<Rightarrow> open_answer_fallback_text)"

definition generate_question_message :: "env \<Rightarrow> string \<Rightarrow> string \<Rightarrow> string \<Rightarrow> error + string" where
  "generate_question_message e question student_name prior_learning =
     (case stripped_content e (Req_generate_question_message question student_name prior_learning) of
        Inl err \<Rightarrow> Inl err
      | Inr encouragement \<Rightarrow>
          Inr (py_strip ([CHR 0x0A] @ ''    '' @ encouragement @ [CHR 0x0A] @ question @ [CHR 0x0A] @ ''    '')))"

definition give_hint_or_explanation :: "env \<Rightarrow> string \<Rightarrow> string \<Rightarrow> string \<Rightarrow> string \<Rightarrow> int \<Rightarrow> error + string" where
  "give_hint_or_explanation e user_answer correct_answer question_text passage attempt =
     (if attempt < 1 \<or> attempt > 3 then Inl AttemptNotBetween1And3
      else stripped_content e
             (Req_give_hint_or_explanation user_answer correct_answer question_text passage attempt))"

definition ask_why_correct :: "env \<Rightarrow> string \<Rightarrow> string \<Rightarrow> string \<Rightarrow> error + string" where
  "ask_why_correct e question_text user_answer passage =
     stripped_content e (Req_ask_why_correct question_text user_answer passage)"

definition respond_to_reflection :: "env \<Rightarrow> string \<Rightarrow> string \<Rightarrow> string \<Rightarrow> string \<Rightarrow> error + string" where
  "respond_to_reflection e reflection_text question_text correct_answer passage =
     stripped_content e (Req_respond_to_reflection reflection_text question_text correct_answer passage)"

definition ask_open_question :: "env \<Rightarrow> string \<Rightarrow> error + string" where
  "ask_open_question e question = stripped_content e (Req_ask_open_question question)"

definition ask_vocab_meaning_question :: "env \<Rightarrow> vocab_row \<Rightarrow> error + string" where
  "ask_vocab_meaning_question e vocab_row = stripped_content e (Req_ask_vocab_meaning_question vocab_row)"

definition give_vocab_correct_reply :: "env \<Rightarrow> vocab_row \<Rightarrow> error + string" where
  "give_vocab_correct_reply e vocab_row = stripped_content e (Req_give_vocab_correct_reply vocab_row)"

definition give_vocab_hint_or_explanation :: "env \<Rightarrow> vocab_row \<Rightarrow> string \<Rightarrow> int \<Rightarrow> error + string" where
  "give_vocab_hint_or_explanation e vocab_row user_answer attempt =
     (if attempt \<notin> {1, 2} then Inl AttemptNeither1Nor2
      else stripped_content e (Req_give_vocab_hint_or_explanation vocab_row user_answer attempt))"

section \<open>Sessions, the world, and effects\<close>

record vocab_session =
  v_attempt :: int
  last_vocab :: vocab_row

record reading_session =
  r_passage :: string
  r_question :: string
  r_attempt :: int
  r_mode :: string
  last_user_answer :: string

record open_session =
  o_question :: string

datatype track = Vocab | Reading | OpenReading

text \<open>
  The trace records, in program order, every message handed to the transport (with the
  boolean \<open>send_whatsapp_message\<close> returned), every cursor increment, every write and
  deletion of a session entry, and every entry into a start function or a reply handler.
\<close>

datatype event =
    Sent int string bool
  | Advanced track int
  | SessionPut track int
  | SessionDel track int
  | Started track int
  | Handled track int string

record world =
  user_sheet :: "user_row list"
  vocab_sessions :: "int \<rightharpoonup> vocab_session"
  reading_sessions :: "int \<rightharpoonup> reading_session"
  open_reading_sessions :: "int \<rightharpoonup> open_session"
  last_sent_messages :: "int \<rightharpoonup> string"
  trace :: "event list"

text \<open>
  A statement runs in a world and ends normally with a value or raises; either way the
  world it leaves behind is returned, because mutations made before a \<open>raise\<close> persist.
\<close>

type_synonym 'a io = "world \<Rightarrow> (error + 'a) \<times> world"

definition io_return :: "'a \<Rightarrow> 'a io" where
  "io_return x w = (Inr x, w)"

definition io_lift :: "error + 'a \<Rightarrow> 'a io" where
  "io_lift r w = (r, w)"

definition io_bind :: "'a io \<Rightarrow> ('a \<Rightarrow> 'b io) \<Rightarrow> 'b io" where
  "io_bind m k w = (case m w of (Inl e, w') \<Rightarrow> (Inl e, w') | (Inr x, w') \<Rightarrow> k x w')"

definition io_seq :: "'a io \<Rightarrow> 'b io \<Rightarrow> 'b io" where
  "io_seq m k = io_bind m (\<lambda>_. k)"

definition from_sheet :: "(user_row list \<Rightarrow> error + 'a) \<Rightarrow> 'a io" where
  "from_sheet f w = (f (user_sheet w), w)"

definition emit :: "event \<Rightarrow> unit io" where
  "emit ev w = (Inr (), w\<lparr>trace := trace w @ [ev]\<rparr>)"

definition to_sheet :: "track \<Rightarrow> int \<Rightarrow> (user_row list \<Rightarrow> error + user_row list) \<Rightarrow> unit io" where
  "to_sheet t phone_number f w =
     (case f (user_sheet w) of
        Inl e \<Rightarrow> (Inl e, w)
      | Inr sheet' \<Rightarrow> (Inr (), w\<lparr>user_sheet := sheet', trace := trace w @ [Advanced t phone_number]\<rparr>))"

definition advance_vocab_index :: "int \<Rightarrow> unit io" where
  "advance_vocab_index phone_number =
     to_sheet Vocab phone_number (\<lambda>sheet_user. advance_vocab_index_sheet sheet_user phone_number)"

definition advance_question_progress :: "int \<Rightarrow> unit io" where
  "advance_question_progress phone_number =
     to_sheet Reading phone_number (\<lambda>sheet_user. advance_question_progress_sheet sheet_user phone_number)"

definition advance_open_question_progress :: "int \<Rightarrow> unit io" where
  "advance_open_question_progress phone_number =
     to_sheet OpenReading phone_number (\<lambda>sheet_user. advance_open_question_progress_sheet sheet_user phone_number)"

subsection \<open>whatsapp_utils.send_whatsapp_message\<close>

text \<open>
  The whole body is inside \<open>try\<close>: the text is stored first, then posted. Status 200 gives
  \<open>True\<close>; any other status, and any exception, gives \<open>False\<close>.
\<close>

definition post_ok :: "env \<Rightarrow> nat \<Rightarrow> int \<Rightarrow> string \<Rightarrow> bool" where
  "post_ok e n phone_number message =
     (case transport e n phone_number message of
        Responded status_code \<Rightarrow> status_code = 200
      | TransportRaised \<Rightarrow> False)"

definition send_whatsapp_message :: "env \<Rightarrow> int \<Rightarrow> string \<Rightarrow> bool io" where
  "send_whatsapp_message e phone_number message w =
     (let w1 = w\<lparr>last_sent_messages := (last_sent_messages w)(phone_number \<mapsto> message)\<rparr>;
          ok = post_ok e (length (trace w)) phone_number message
      in (Inr ok, w1\<lparr>trace := trace w @ [Sent phone_number message ok]\<rparr>))"

subsection \<open>vocab_session_controller\<close>

definition put_vocab_session :: "int \<Rightarrow> vocab_session \<Rightarrow> unit io" where
  "put_vocab_session phone_number s w =
     (Inr (), w\<lparr>vocab_sessions := (vocab_sessions w)(phone_number \<mapsto> s),
                trace := trace w @ [SessionPut Vocab phone_number]\<rparr>)"

definition del_vocab_session :: "int \<Rightarrow> unit io" where
  "del_vocab_session phone_number w =
     (case vocab_sessions w phone_number of
        None \<Rightarrow> (Inl (KeyError phone_number), w)
      | Some s \<Rightarrow> (Inr (), w\<lparr>vocab_sessions := (vocab_sessions w)(phone_number := None),
                             trace := trace w @ [SessionDel Vocab phone_number]\<rparr>))"

definition set_vocab_attempt :: "int \<Rightarrow> int \<Rightarrow> unit io" where
  "set_vocab_attempt phone_number a w =
     (case vocab_sessions w phone_number of
        None \<Rightarrow> (Inl (KeyError phone_number), w)
      | Some s \<Rightarrow> (Inr (), w\<lparr>vocab_sessions := (vocab_sessions w)(phone_number \<mapsto> s\<lparr>v_attempt := a\<rparr>)\<rparr>))"

definition start_vocab_session :: "env \<Rightarrow> int \<Rightarrow> vocab_row list \<Rightarrow> unit io" where
  "start_vocab_session e phone_number sheet_vocab =
     io_seq (emit (Started Vocab phone_number))
    (io_bind (from_sheet (\<lambda>sheet_user. get_current_vocab_row sheet_user sheet_vocab phone_number)) (\<lambda>vocab_row.
       case vocab_row of
         None \<Rightarrow> io_seq (send_whatsapp_message e phone_number vocab_done_text) (io_return ())
       | Some vocab_row \<Rightarrow>
           io_bind (io_lift (ask_vocab_meaning_question e vocab_row)) (\<lambda>message.
           io_seq (put_vocab_session phone_number \<lparr>v_attempt = 1, last_vocab = vocab_row\<rparr>)
          (io_seq (send_whatsapp_message e phone_number message) (io_return ())))))"

definition handle_vocab_reply :: "env \<Rightarrow> int \<Rightarrow> string \<Rightarrow> vocab_row list \<Rightarrow> unit io" where
  "handle_vocab_reply e phone_number user_reply sheet_vocab =
     io_seq (emit (Handled Vocab phone_number user_reply))
    (io_bind (\<lambda>w. (Inr (vocab_sessions w phone_number), w)) (\<lambda>session.
       case session of
         None \<Rightarrow> io_seq (send_whatsapp_message e phone_number vocab_reentry_text) (io_return ())
       | Some session \<Rightarrow>
           let vocab_row = last_vocab session;
               correct_answer = ChineseExplaination vocab_row;
               attempt = v_attempt session
           in io_bind (io_lift (evaluate_answer e user_reply correct_answer)) (\<lambda>is_correct.
                if is_correct then
                  io_bind (io_lift (give_vocab_correct_reply e vocab_row)) (\<lambda>msg.
                  io_seq (send_whatsapp_message e phone_number msg)
                 (io_seq (advance_vocab_index phone_number)
                 (io_seq (del_vocab_session phone_number)
                 (start_vocab_session e phone_number sheet_vocab))))
                else if attempt = 1 then
                  io_bind (io_lift (give_vocab_hint_or_explanation e vocab_row user_reply 1)) (\<lambda>msg.
                  io_seq (set_vocab_attempt phone_number 2)
                 (io_seq (send_whatsapp_message e phone_number msg) (io_return ())))
                else
                  io_bind (io_lift (give_vocab_hint_or_explanation e vocab_row user_reply 2)) (\<lambda>msg.
                  io_seq (advance_vocab_index phone_number)
                 (io_seq (del_vocab_session phone_number)
                 (io_seq (send_whatsapp_message e phone_number msg)
                 (start_vocab_session e phone_number sheet_vocab)))))))"

subsection \<open>reading_session_controller\<close>

definition put_reading_session :: "int \<Rightarrow> reading_session \<Rightarrow> unit io" where
  "put_reading_session phone_number s w =
     (Inr (), w\<lparr>reading_sessions := (reading_sessions w)(phone_number \<mapsto> s),
                trace := trace w @ [SessionPut Reading phone_number]\<rparr>)"

definition del_reading_session :: "int \<Rightarrow> unit io" where
  "del_reading_session phone_number w =
     (case reading_sessions w phone_number of
        None \<Rightarrow> (Inl (KeyError phone_number), w)
      | Some s \<Rightarrow> (Inr (), w\<lparr>reading_sessions := (reading_sessions w)(phone_number := None),
                             trace := trace w @ [SessionDel Reading phone_number]\<rparr>))"

text \<open>In-place mutation of the session dictionary stored under the student's key.\<close>

definition modify_reading_session :: "int \<Rightarrow> (reading_session \<Rightarrow> reading_session) \<Rightarrow> unit io" where
  "modify_reading_session phone_number f w =
     (case reading_sessions w phone_number of
        None \<Rightarrow> (Inl (KeyError phone_number), w)
      | Some s \<Rightarrow> (Inr (), w\<lparr>reading_sessions := (reading_sessions w)(phone_number \<mapsto> f s)\<rparr>))"

definition start_reading_session :: "env \<Rightarrow> int \<Rightarrow> comprehension_row list \<Rightarrow> string option \<Rightarrow> unit io" where
  "start_reading_session e phone_number sheet_comprehension prior_learning =
     io_seq (emit (Started Reading phone_number))
    (io_bind (from_sheet (\<lambda>sheet_user. get_passage sheet_user sheet_comprehension phone_number)) (\<lambda>passage.
     io_bind (from_sheet (\<lambda>sheet_user. get_current_question sheet_user sheet_comprehension phone_number)) (\<lambda>question.
     io_bind (from_sheet (\<lambda>sheet_user. get_student_name_by_phone sheet_user phone_number)) (\<lambda>student_name.
     let prior_learning = (case prior_learning of Some t \<Rightarrow> t | None \<Rightarrow> [])
     in io_bind (io_lift (generate_question_message e question student_name prior_learning)) (\<lambda>full_message.
        io_seq (put_reading_session phone_number
                  \<lparr>r_passage = passage, r_question = question, r_attempt = 1, r_mode = [],
                   last_user_answer = []\<rparr>)
       (io_seq (send_whatsapp_message e phone_number full_message) (io_return ())))))))"

definition handle_reading_reply :: "env \<Rightarrow> int \<Rightarrow> string \<Rightarrow> comprehension_row list \<Rightarrow> unit io" where
  "handle_reading_reply e phone_number user_reply sheet_comprehension =
     io_seq (emit (Handled Reading phone_number user_reply))
    (io_bind (\<lambda>w. (Inr (reading_sessions w phone_number), w)) (\<lambda>entry.
       case entry of
         None \<Rightarrow> io_seq (send_whatsapp_message e phone_number reading_reentry_text) (io_return ())
       | Some session \<Rightarrow>
           if r_mode session = ''reflection'' then
             let reflection_reply = user_reply; question = r_question session
             in io_bind (from_sheet (\<lambda>sheet_user. get_current_answer sheet_user sheet_comprehension phone_number)) (\<lambda>correct_answer.
                let passage = r_passage session
                in io_bind (io_lift (respond_to_reflection e reflection_reply question correct_answer passage)) (\<lambda>response.
                   io_seq (send_whatsapp_message e phone_number response)
                  (io_seq (advance_question_progress phone_number)
                  (io_seq (del_reading_session phone_number)
                  (start_reading_session e phone_number sheet_comprehension (Some reflection_reply))))))
           else
             let passage = r_passage session; question = r_question session; attempt = r_attempt session
             in io_bind (from_sheet (\<lambda>sheet_user. get_current_answer sheet_user sheet_comprehension phone_number)) (\<lambda>correct_answer.
                io_bind (io_lift (is_student_answering_question e user_reply question)) (\<lambda>answering.
                  if \<not> answering then
                    io_bind (io_lift (is_reply_relevant_to_learning e user_reply question)) (\<lambda>relevant.
                      if relevant then
                        io_bind (io_lift (generate_answer_to_student_question e user_reply)) (\<lambda>reply.
                        io_seq (send_whatsapp_message e phone_number reply) (io_return ()))
                      else
                        io_seq (send_whatsapp_message e phone_number (handle_irrelevant_input_with_llm e user_reply))
                               (io_return ()))
                  else
                    io_bind (io_lift (evaluate_answer e user_reply correct_answer)) (\<lambda>is_correct.
                      if is_correct then
                        io_bind (io_lift (ask_why_correct e question user_reply passage)) (\<lambda>why_msg.
                        io_seq (send_whatsapp_message e phone_number why_msg)
                       (modify_reading_session phone_number
                          (\<lambda>s. s\<lparr>r_mode := ''reflection'', last_user_answer := user_reply\<rparr>)))
                      else if attempt < 3 then
                        io_bind (io_lift (give_hint_or_explanation e user_reply correct_answer question passage attempt)) (\<lambda>hint_msg.
                        io_seq (modify_reading_session phone_number (\<lambda>s. s\<lparr>r_attempt := r_attempt s + 1\<rparr>))
                       (io_seq (send_whatsapp_message e phone_number hint_msg)
                       (io_seq (send_whatsapp_message e phone_number (retry_prefix_text @ question))
                               (io_return ()))))
                      else
                        io_bind (io_lift (give_hint_or_explanation e user_reply correct_answer question passage 3)) (\<lambda>explanation.
                        io_seq (send_whatsapp_message e phone_number explanation)
                       (io_seq (advance_question_progress phone_number)
                       (io_seq (del_reading_session phone_number)
                       (start_reading_session e phone_number sheet_comprehension None)))))))))"

subsection \<open>open_reading_session_controller\<close>

definition put_open_reading_session :: "int \<Rightarrow> open_session \<Rightarrow> unit io" where
  "put_open_reading_session phone_number s w =
     (Inr (), w\<lparr>open_reading_sessions := (open_reading_sessions w)(phone_number \<mapsto> s),
                trace := trace w @ [SessionPut OpenReading phone_number]\<rparr>)"

definition del_open_reading_session :: "int \<Rightarrow> unit io" where
  "del_open_reading_session phone_number w =
     (case open_reading_sessions w phone_number of
        None \<Rightarrow> (Inl (KeyError phone_number), w)
      | Some s \<Rightarrow> (Inr (), w\<lparr>open_reading_sessions := (open_reading_sessions w)(phone_number := None),
                             trace := trace w @ [SessionDel OpenReading phone_number]\<rparr>))"

definition start_open_reading_session :: "env \<Rightarrow> int \<Rightarrow> open_row list \<Rightarrow> unit io" where
  "start_open_reading_session e phone_number sheet_open_reading =
     io_seq (emit (Started OpenReading phone_number))
    (io_bind (from_sheet (\<lambda>sheet_user. get_open_question sheet_user sheet_open_reading phone_number)) (\<lambda>question.
     io_seq (put_open_reading_session phone_number \<lparr>o_question = question\<rparr>)
    (io_bind (io_lift (ask_open_question e question)) (\<lambda>message.
     io_seq (send_whatsapp_message e phone_number message) (io_return ())))))"

definition handle_open_reading_reply :: "env \<Rightarrow> int \<Rightarrow> string \<Rightarrow> open_row list \<Rightarrow> unit io" where
  "handle_open_reading_reply e phone_number user_reply sheet_open_reading =
     io_seq (emit (Handled OpenReading phone_number user_reply))
    (io_bind (\<lambda>w. (Inr (open_reading_sessions w phone_number), w)) (\<lambda>entry.
       case entry of
         None \<Rightarrow> io_seq (send_whatsapp_message e phone_number open_reentry_text) (io_return ())
       | Some session \<Rightarrow>
           let question = o_question session
           in io_bind (io_lift (is_reply_relevant_to_learning e user_reply question)) (\<lambda>relevant.
                if \<not> relevant then
                  io_seq (send_whatsapp_message e phone_number open_redirect_text) (io_return ())
                else
                  io_bind (from_sheet (\<lambda>sheet_user. get_open_question_objective sheet_user sheet_open_reading phone_number)) (\<lambda>learning_objective.
                  io_bind (from_sheet (\<lambda>sheet_user. get_open_question_ans sheet_user sheet_open_reading phone_number)) (\<lambda>answer.
                  let reply = respond_to_open_answer e user_reply question learning_objective answer
                  in io_seq (send_whatsapp_message e phone_number reply)
                    (io_seq (advance_open_question_progress phone_number)
                    (io_seq (del_open_reading_session phone_number)
                    (start_open_reading_session e phone_number sheet_open_reading))))))))"

subsection \<open>whatsapp_webhook.receive_message\<close>

definition receive_message :: "env \<Rightarrow> int \<Rightarrow> string \<Rightarrow> unit io" where
  "receive_message e phone_number raw_message =
     (let message = py_lower (py_strip raw_message)
      in io_bind (from_sheet (\<lambda>sheet_user. get_student_name_by_phone sheet_user phone_number)) (\<lambda>student_name.
           if py_in ''start'' message then
             io_bind (io_lift (greet_student e student_name)) (\<lambda>greet.
             io_seq (send_whatsapp_message e phone_number greet) (io_return ()))
           else if py_in ''vocab'' message then
             start_vocab_session e phone_number (vocab_sheet e)
           else if py_in ''reading'' message then
             start_reading_session e phone_number (close_reading_sheet e) None
           else if py_in ''warm up'' message then
             start_open_reading_session e phone_number (open_reading_sheet e)
           else (\<lambda>w.
             if phone_number \<in> dom (open_reading_sessions w) then
               handle_open_reading_reply e phone_number message (open_reading_sheet e) w
             else if phone_number \<in> dom (reading_sessions w) then
               handle_reading_reply e phone_number message (close_reading_sheet e) w
             else
               (let question_prompt = (case last_sent_messages w phone_number of Some t \<Rightarrow> t | None \<Rightarrow> [])
                in io_bind (io_lift (is_student_answering_question e message question_prompt)) (\<lambda>answering.
                     if answering then
                       handle_vocab_reply e phone_number message (vocab_sheet e)
                     else
                       io_bind (io_lift (is_reply_relevant_to_learning e message question_prompt)) (\<lambda>relevant.
                         if relevant then
                           io_bind (io_lift (generate_answer_to_student_question e message)) (\<lambda>response.
                           io_seq (send_whatsapp_message e phone_number response)
                                  (start_vocab_session e phone_number (vocab_sheet e)))
                         else
                           io_seq (send_whatsapp_message e phone_number (handle_irrelevant_input_with_llm e message))
                                  (io_return ()))) w))))"

section \<open>Vocabulary of the properties\<close>

text \<open>The row of a student with exactly the cursor of one track moved on by one.\<close>

fun bump :: "track \<Rightarrow> user_row \<Rightarrow> user_row" where
  "bump Vocab row = row\<lparr>current_vocab_number := current_vocab_number row + 1\<rparr>"
| "bump Reading row = row\<lparr>current_question_number := current_question_number row + 1\<rparr>"
| "bump OpenReading row = row\<lparr>current_open_question_number := current_open_question_number row + 1\<rparr>"

text \<open>
  Between two states of the user sheet, the first row of student \<open>p\<close> has had the cursor of
  track \<open>t\<close> incremented, and nothing else in the sheet differs.
\<close>

definition cursor_advanced :: "track \<Rightarrow> int \<Rightarrow> user_row list \<Rightarrow> user_row list \<Rightarrow> bool" where
  "cursor_advanced t p sheet sheet' \<longleftrightarrow>
     (\<exists>i < length sheet. phone_no (sheet ! i) = p \<and> (\<forall>j < i. phone_no (sheet ! j) \<noteq> p)
         \<and> sheet' = sheet[i := bump t (sheet ! i)])"

definition new_events :: "world \<Rightarrow> world \<Rightarrow> event list" where
  "new_events w w' = drop (length (trace w)) (trace w')"

text \<open>The events that change progress or sessions, or enter a start function.\<close>

fun progress_event :: "event \<Rightarrow> bool" where
  "progress_event (Sent p m ok) = False"
| "progress_event (Handled t p m) = False"
| "progress_event ev = True"

text \<open>The session dictionary of a track holds no entry for the student.\<close>

fun session_absent :: "track \<Rightarrow> int \<Rightarrow> world \<Rightarrow> bool" where
  "session_absent Vocab p w = (vocab_sessions w p = None)"
| "session_absent Reading p w = (reading_sessions w p = None)"
| "session_absent OpenReading p w = (open_reading_sessions w p = None)"

text \<open>
  Between two worlds, the entry of the student has been removed from the session dictionary
  of the track and no other session entry of any track has changed.
\<close>

fun session_deleted :: "track \<Rightarrow> int \<Rightarrow> world \<Rightarrow> world \<Rightarrow> bool" where
  "session_deleted Vocab p w w' =
     (vocab_sessions w' = (vocab_sessions w)(p := None)
      \<and> reading_sessions w' = reading_sessions w
      \<and> open_reading_sessions w' = open_reading_sessions w)"
| "session_deleted Reading p w w' =
     (reading_sessions w' = (reading_sessions w)(p := None)
      \<and> vocab_sessions w' = vocab_sessions w
      \<and> open_reading_sessions w' = open_reading_sessions w)"
| "session_deleted OpenReading p w w' =
     (open_reading_sessions w' = (open_reading_sessions w)(p := None)
      \<and> vocab_sessions w' = vocab_sessions w
      \<and> reading_sessions w' = reading_sessions w)"

text \<open>
  What a completion event of track \<open>t\<close> for student \<open>p\<close> does, from the world \<open>w\<close> before the
  handler to its result \<open>res\<close>. There is a world \<open>mid\<close> in which the track's cursor of the
  student has been incremented in the sheet and the student's session entry of the track is
  gone from the session dictionary (nothing else in the dictionaries changed), reached with
  exactly one increment followed by one deletion, and the result of the handler is the
  result of the chained start function run in \<open>mid\<close>. In the world the handler leaves
  behind the cursor is still the incremented one, and among the new events that change
  progress or sessions there is one increment, then the deletion, then the entry into the
  chained start, which may write a new session.
\<close>

definition completion_effect :: "track \<Rightarrow> int \<Rightarrow> unit io \<Rightarrow> world \<Rightarrow> (error + unit) \<times> world \<Rightarrow> bool" where
  "completion_effect t p chained_start w res \<longleftrightarrow>
     (\<exists>mid. res = chained_start mid
        \<and> session_absent t p mid
        \<and> session_deleted t p w mid
        \<and> cursor_advanced t p (user_sheet w) (user_sheet mid)
        \<and> filter progress_event (new_events w mid) = [Advanced t p, SessionDel t p])
     \<and> cursor_advanced t p (user_sheet w) (user_sheet (snd res))
     \<and> (let evs = filter progress_event (new_events w (snd res))
        in evs = [Advanced t p, SessionDel t p, Started t p]
         \<or> evs = [Advanced t p, SessionDel t p, Started t p, SessionPut t p])"

text \<open>
  The attempt counters of all stored sessions: 1 or 2 for a vocabulary session; 1, 2 or 3 for
  a closed-reading session that is not in reflection mode.
\<close>

definition attempts_in_range :: "world \<Rightarrow> bool" where
  "attempts_in_range w \<longleftrightarrow>
     (\<forall>p s. vocab_sessions w p = Some s \<longrightarrow> v_attempt s \<in> {1, 2})
   \<and> (\<forall>p s. reading_sessions w p = Some s \<longrightarrow> r_mode s \<noteq> ''reflection'' \<longrightarrow> r_attempt s \<in> {1, 2, 3})"

text \<open>The two halves of the invariant, as properties of the session dictionaries.\<close>

definition vocab_ok :: "(int \<rightharpoonup> vocab_session) \<Rightarrow> bool" where
  "vocab_ok m \<longleftrightarrow> (\<forall>p s. m p = Some s \<longrightarrow> v_attempt s = 1 \<or> v_attempt s = 2)"

definition reading_ok :: "(int \<rightharpoonup> reading_session) \<Rightarrow> bool" where
  "reading_ok m \<longleftrightarrow> (\<forall>p s. m p = Some s \<longrightarrow> r_mode s \<noteq> ''reflection'' \<longrightarrow>
      r_attempt s = 1 \<or> r_attempt s = 2 \<or> r_attempt s = 3)"


text \<open>
  A run of the service: inbound messages handled one after the other, each turn with its own
  behaviour of the oracles; the world left by a turn that raises is the one the next turn sees.
\<close>

fun run :: "(env \<times> int \<times> string) list \<Rightarrow> world \<Rightarrow> world" where
  "run [] w = w"
| "run ((e, phone_number, raw_message) # turns) w = run turns (snd (receive_message e phone_number raw_message w))"

text \<open>Entries into a reply handler, and statements that enter none.\<close>

fun is_handled :: "event \<Rightarrow> bool" where
  "is_handled (Handled t p m) = True"
| "is_handled ev = False"

definition quiet :: "'a io \<Rightarrow> bool" where
  "quiet m \<longleftrightarrow> (\<forall>w. \<exists>evs. trace (snd (m w)) = trace w @ evs \<and> filter is_handled evs = [])"

text \<open>
  The default flow in the words of the specification (Dispatcher, step 4): the message is
  treated against the most recently sent prompt. If it is classified as an attempt to answer
  that prompt, it is routed into the vocabulary reply handler; if not, but it is judged
  relevant to learning, the free-form question is answered directly and the vocabulary
  controller is (re)started; otherwise an off-topic redirect is sent and no flow action is
  taken.
\<close>

definition spec_default_flow :: "env \<Rightarrow> int \<Rightarrow> string \<Rightarrow> string \<Rightarrow> unit io" where
  "spec_default_flow e student message prompt w =
     (case is_student_answering_question e message prompt of
        Inl err \<Rightarrow> (Inl err, w)
      | Inr True \<Rightarrow> handle_vocab_reply e student message (vocab_sheet e) w
      | Inr False \<Rightarrow>
          (case is_reply_relevant_to_learning e message prompt of
             Inl err \<Rightarrow> (Inl err, w)
           | Inr True \<Rightarrow>
               (case generate_answer_to_student_question e message of
                  Inl err \<Rightarrow> (Inl err, w)
                | Inr answer \<Rightarrow>
                    start_vocab_session e student (vocab_sheet e)
                      (snd (send_whatsapp_message e student answer w)))
           | Inr False \<Rightarrow>
               (Inr (), snd (send_whatsapp_message e student (handle_irrelevant_input_with_llm e message) w))))"

text \<open>The text the dispatcher classifies against: \<open>last_sent_messages.get(phone_number, "")\<close>.\<close>

definition last_prompt :: "world \<Rightarrow> int \<Rightarrow> string" where
  "last_prompt w p = (case last_sent_messages w p of Some t \<Rightarrow> t | None \<Rightarrow> [])"

text \<open>A message that contains none of the four command words, in any letter case.\<close>

definition no_trigger :: "string \<Rightarrow> bool" where
  "no_trigger raw \<longleftrightarrow> \<not> py_in ''start'' (py_lower raw) \<and> \<not> py_in ''vocab'' (py_lower raw)
     \<and> \<not> py_in ''reading'' (py_lower raw) \<and> \<not> py_in ''warm up'' (py_lower raw)"

text \<open>A result other than the invalid-state error of the vocabulary hint generator.\<close>

definition guard_free :: "error + 'a \<Rightarrow> bool" where
  "guard_free r \<longleftrightarrow> r \<noteq> Inl AttemptNeither1Nor2"

section \<open>Fixtures\<close>

definition reply_env :: "string \<Rightarrow> env" where
  "reply_env c = \<lparr>chat = (\<lambda>req. Content c), transport = (\<lambda>n p t. Responded 200),
     vocab_sheet = [], close_reading_sheet = [], open_reading_sheet = []\<rparr>"

definition both_markers :: string where
  "both_markers = ''{'' @ [CHR 0x22] @ ''is_correct'' @ [CHR 0x22] @ '': true} or {''
     @ [CHR 0x22] @ ''is_correct'' @ [CHR 0x22] @ '': false}''"

definition shouted_true :: string where
  "shouted_true = '' {'' @ [CHR 0x22] @ ''Is_Correct'' @ [CHR 0x22] @ '': TRUE} ''"


text \<open>One student, two vocabulary items, two closed questions and one open question of day 1.\<close>

definition amy :: user_row where
  "amy = \<lparr>phone_no = 85291234567, eng_name = ''Amy'', day_of_training = 1,
     current_question_number = 1, current_vocab_number = 0, current_open_question_number = 1\<rparr>"

definition word1 :: vocab_row where
  "word1 = \<lparr>Day = 1, Vocabulary = ''resilient'', PartOfSpeech = ''adj'',
     Examples = ''She is resilient.'', ChineseExplaination = ''tough'', Tips = ''bounce back'',
     Roots = ''re-salire'', MemStories = ''a rubber ball''\<rparr>"

definition word2 :: vocab_row where
  "word2 = \<lparr>Day = 1, Vocabulary = ''fragile'', PartOfSpeech = ''adj'',
     Examples = ''The vase is fragile.'', ChineseExplaination = ''easily broken'', Tips = ''glass'',
     Roots = ''frangere'', MemStories = ''a box marked fragile''\<rparr>"

definition question1 :: comprehension_row where
  "question1 = \<lparr>c_day_of_training = 1, c_question_id = 1, passage_text = ''Tom went home early.'',
     c_question_text = ''Where did Tom go?'', c_answer_text = ''home''\<rparr>"

definition question2 :: comprehension_row where
  "question2 = \<lparr>c_day_of_training = 1, c_question_id = 2, passage_text = ''Tom went home early.'',
     c_question_text = ''When did Tom go?'', c_answer_text = ''early''\<rparr>"

definition open1 :: open_row where
  "open1 = \<lparr>o_day_of_training = 1, o_question_id = 1, o_question_text = ''Why might Tom leave?'',
     learning_objective = ''inference'', o_answer_text = ''he was tired''\<rparr>"

text \<open>
  A scripted oracle: the three verdicts are fixed in advance and every generation request is
  answered with the same text. The transport answers every post with the given result.
\<close>

definition scripted_chat :: "bool \<Rightarrow> bool \<Rightarrow> bool \<Rightarrow> llm_request \<Rightarrow> llm_response" where
  "scripted_chat correct answering relevant req =
     (case req of
        Req_evaluate_answer u c \<Rightarrow>
          Content ([CHR 0x22] @ ''is_correct'' @ [CHR 0x22] @ (if correct then '': true'' else '': false''))
      | Req_is_student_answering_question u q \<Rightarrow>
          Content ([CHR 0x22] @ ''answered'' @ [CHR 0x22] @ (if answering then '': true'' else '': false''))
      | Req_is_reply_relevant_to_learning u q \<Rightarrow>
          Content ([CHR 0x22] @ ''relevant'' @ [CHR 0x22] @ (if relevant then '': true'' else '': false''))
      | _ \<Rightarrow> Content ''ok'')"

definition demo_env :: "bool \<Rightarrow> bool \<Rightarrow> bool \<Rightarrow> transport_result \<Rightarrow> env" where
  "demo_env correct answering relevant tr =
     \<lparr>chat = scripted_chat correct answering relevant, transport = (\<lambda>n p m. tr),
      vocab_sheet = [word1, word2], close_reading_sheet = [question1, question2],
      open_reading_sheet = [open1]\<rparr>"

definition world0 :: world where
  "world0 = \<lparr>user_sheet = [amy], vocab_sessions = Map.empty, reading_sessions = Map.empty,
     open_reading_sessions = Map.empty, last_sent_messages = Map.empty, trace = []\<rparr>"

definition vocab_world :: "int \<Rightarrow> world" where
  "vocab_world a = world0\<lparr>vocab_sessions := [85291234567 \<mapsto> \<lparr>v_attempt = a, last_vocab = word1\<rparr>]\<rparr>"

definition reading_world :: "int \<Rightarrow> string \<Rightarrow> world" where
  "reading_world a m = world0\<lparr>reading_sessions :=
     [85291234567 \<mapsto> \<lparr>r_passage = ''Tom went home early.'', r_question = ''Where did Tom go?'',
                      r_attempt = a, r_mode = m, last_user_answer = []\<rparr>]\<rparr>"

definition open_world :: world where
  "open_world = world0\<lparr>open_reading_sessions := [85291234567 \<mapsto> \<lparr>o_question = ''Why might Tom leave?''\<rparr>]\<rparr>"


definition both_world :: world where
  "both_world = world0\<lparr>
     reading_sessions := [85291234567 \<mapsto> \<lparr>r_passage = ''Tom went home early.'',
        r_question = ''Where did Tom go?'', r_attempt = 1, r_mode = [], last_user_answer = []\<rparr>],
     open_reading_sessions := [85291234567 \<mapsto> \<lparr>o_question = ''Why might Tom leave?''\<rparr>]\<rparr>"

text \<open>
  The same student after the last item of each track of day 1: no vocabulary item, no closed
  question and no open question is left at the cursors.
\<close>

definition exhausted_world :: world where
  "exhausted_world = world0\<lparr>user_sheet :=
     [amy\<lparr>current_question_number := 3, current_vocab_number := 2, current_open_question_number := 2\<rparr>]\<rparr>"

text \<open>
  The student at the last closed question of day 1, in reflection mode after a correct answer.
\<close>

definition last_question_world :: world where
  "last_question_world = world0\<lparr>
     user_sheet := [amy\<lparr>current_question_number := 2\<rparr>],
     reading_sessions := [85291234567 \<mapsto> \<lparr>r_passage = ''Tom went home early.'',
        r_question = ''When did Tom go?'', r_attempt = 1, r_mode = ''reflection'',
        last_user_answer = ''early''\<rparr>]\<rparr>"


section \<open>Strings: containment, stripping, lower-casing\<close>

lemma py_in_sublist: "py_in n s = sublist n s"
  by (induction s) (auto simp: sublist_Cons_right)

lemma sublist_dropWhile:
  assumes "n \<noteq> []" "\<not> P (hd n)"
  shows "sublist n (dropWhile P s) = sublist n s"
proof (induction s)
  case Nil
  then show ?case by simp
next
  case (Cons c cs)
  show ?case
  proof (cases "P c")
    case True
    have "\<not> prefix n (c # cs)"
      using assms True by (cases n) auto
    then show ?thesis using True Cons by (simp add: sublist_Cons_right)
  next
    case False
    then show ?thesis by simp
  qed
qed

lemma py_in_strip:
  assumes "n \<noteq> []" "\<not> is_space (hd n)" "\<not> is_space (last n)"
  shows "py_in n (py_strip s) = py_in n s"
proof -
  have "sublist n (py_strip s) = sublist (rev n) (dropWhile is_space (rev (dropWhile is_space s)))"
    unfolding py_strip_def by (simp add: sublist_rev_right)
  also have "\<dots> = sublist (rev n) (rev (dropWhile is_space s))"
    using assms by (intro sublist_dropWhile) (simp_all add: hd_rev)
  also have "\<dots> = sublist n (dropWhile is_space s)" by simp
  also have "\<dots> = sublist n s" using assms by (intro sublist_dropWhile)
  finally show ?thesis by (simp add: py_in_sublist)
qed

lemma is_space_char_lower [simp]: "is_space (char_lower c) = is_space c"
  by (cases c) (auto simp: is_space_def char_lower_def Let_def)

lemma py_lower_strip: "py_lower (py_strip s) = py_strip (py_lower s)"
  unfolding py_lower_def py_strip_def
  by (simp add: dropWhile_map rev_map comp_def)

lemma py_in_lower_strip:
  assumes "n \<noteq> [] \<and> \<not> is_space (hd n) \<and> \<not> is_space (last n)"
  shows "py_in n (py_lower (py_strip s)) = py_in n (py_lower s)"
  using assms by (simp add: py_lower_strip py_in_strip)

lemma marker_true_shape:
  "is_correct_true \<noteq> [] \<and> \<not> is_space (hd is_correct_true) \<and> \<not> is_space (last is_correct_true)"
  by (simp add: is_correct_true_def is_space_def)

lemma marker_false_shape:
  "is_correct_false \<noteq> [] \<and> \<not> is_space (hd is_correct_false) \<and> \<not> is_space (last is_correct_false)"
  by (simp add: is_correct_false_def is_space_def)

section \<open>The correctness classifier\<close>

text \<open>
  C8, as the claim states it, fails: the claim says the classifier returns false exactly when
  the reply contains the marker \<open>"is_correct": false\<close>. The true marker is tested first, so
  a reply holding both markers is classified true.
\<close>

theorem evaluate_answer_both_markers_counterexample:
  "py_in is_correct_false (py_lower both_markers)
   \<and> evaluate_answer (reply_env both_markers) ''ans'' ''model'' = Inr True
   \<and> evaluate_answer (reply_env both_markers) ''ans'' ''model'' \<noteq> Inr False"
  by (simp add: evaluate_answer_def stripped_content_def content_def reply_env_def both_markers_def
       is_correct_true_def is_correct_false_def py_lower_def char_lower_def py_strip_def is_space_def)

text \<open>
  C8 (amended): when the oracle replies with a text, \<open>evaluate_answer\<close> returns true exactly
  when the lower-cased reply contains \<open>"is_correct": true\<close>; it returns false exactly when
  the lower-cased reply contains \<open>"is_correct": false\<close> and does not contain the true
  marker; and it raises the classification error (carrying the stripped reply) exactly when
  the reply contains neither marker. No default verdict is substituted.
\<close>

theorem evaluate_answer_verdict:
  assumes "chat e (Req_evaluate_answer user_answer correct_answer) = Content c"
  shows "(evaluate_answer e user_answer correct_answer = Inr True
            \<longleftrightarrow> py_in is_correct_true (py_lower c))
       \<and> (evaluate_answer e user_answer correct_answer = Inr False
            \<longleftrightarrow> py_in is_correct_false (py_lower c) \<and> \<not> py_in is_correct_true (py_lower c))
       \<and> (evaluate_answer e user_answer correct_answer = Inl (UnexpectedLLMResponse (py_strip c))
            \<longleftrightarrow> \<not> py_in is_correct_true (py_lower c) \<and> \<not> py_in is_correct_false (py_lower c))"
  using assms
  by (simp add: evaluate_answer_def stripped_content_def content_def
        py_in_lower_strip[OF marker_true_shape] py_in_lower_strip[OF marker_false_shape])

text \<open>The upper-case reply \<open>{"Is_Correct": TRUE}\<close>, padded with blanks, is classified true.\<close>

theorem evaluate_answer_verdict_witness:
  "chat (reply_env shouted_true) (Req_evaluate_answer ''a'' ''b'') = Content shouted_true
   \<and> py_in is_correct_true (py_lower shouted_true)
   \<and> evaluate_answer (reply_env shouted_true) ''a'' ''b'' = Inr True"
proof -
  have h: "chat (reply_env shouted_true) (Req_evaluate_answer ''a'' ''b'') = Content shouted_true"
    by (simp add: reply_env_def)
  have m: "py_in is_correct_true (py_lower shouted_true)"
    by (simp add: shouted_true_def is_correct_true_def py_lower_def char_lower_def)
  from evaluate_answer_verdict[OF h] h m show ?thesis by simp
qed

section \<open>The user sheet\<close>

lemma row_index_from_found:
  "row_index_from k sheet p = Inr i \<Longrightarrow>
     k \<le> i \<and> i - k < length sheet \<and> phone_no (sheet ! (i - k)) = p
       \<and> (\<forall>j < i - k. phone_no (sheet ! j) \<noteq> p)"
proof (induction sheet arbitrary: k)
  case Nil
  then show ?case by simp
next
  case (Cons row rows)
  show ?case
  proof (cases "phone_no row = p")
    case True
    with Cons.prems show ?thesis by simp
  next
    case False
    with Cons.prems have r: "row_index_from (Suc k) rows p = Inr i" by simp
    from Cons.IH[OF r] have ih: "Suc k \<le> i" "i - Suc k < length rows"
      "phone_no (rows ! (i - Suc k)) = p" "\<forall>j < i - Suc k. phone_no (rows ! j) \<noteq> p"
      by auto
    have eq: "i - k = Suc (i - Suc k)" using ih(1) by simp
    have "\<forall>j < i - k. phone_no ((row # rows) ! j) \<noteq> p"
    proof (intro allI impI)
      fix j assume "j < i - k"
      then show "phone_no ((row # rows) ! j) \<noteq> p"
        using False ih(4) eq by (cases j) auto
    qed
    then show ?thesis using ih eq by simp
  qed
qed

lemma row_index_from_missing:
  "row_index_from k sheet p = Inl err \<Longrightarrow> err = PhoneNotFound p \<and> (\<forall>row \<in> set sheet. phone_no row \<noteq> p)"
  by (induction sheet arbitrary: k) (auto split: if_splits)

lemma get_row_index_found:
  assumes "get_row_index_by_phone sheet p = Inr i"
  shows "i - 2 < length sheet \<and> phone_no (sheet ! (i - 2)) = p \<and> (\<forall>j < i - 2. phone_no (sheet ! j) \<noteq> p)"
  using row_index_from_found[of 2 sheet p i] assms by (simp add: get_row_index_by_phone_def)

lemma update_sheet_bump:
  assumes "get_row_index_by_phone sheet p = Inr i"
  shows "advance_vocab_index_sheet sheet p = Inr (sheet[i - 2 := bump Vocab (sheet ! (i - 2))])"
    and "advance_question_progress_sheet sheet p = Inr (sheet[i - 2 := bump Reading (sheet ! (i - 2))])"
    and "advance_open_question_progress_sheet sheet p = Inr (sheet[i - 2 := bump OpenReading (sheet ! (i - 2))])"
  using assms
  by (simp_all add: advance_vocab_index_sheet_def advance_question_progress_sheet_def
        advance_open_question_progress_sheet_def with_user_data_def update_sheet_def)

lemma advance_sheet_cases:
  "(\<exists>i. get_row_index_by_phone sheet p = Inr i) \<or> get_row_index_by_phone sheet p = Inl (PhoneNotFound p)"
proof (cases "get_row_index_by_phone sheet p")
  case (Inl err)
  then show ?thesis using row_index_from_missing[of 2 sheet p err]
    by (simp add: get_row_index_by_phone_def)
next
  case (Inr i)
  then show ?thesis by simp
qed

lemma bumped_row_advances:
  assumes "get_row_index_by_phone sheet p = Inr i"
  shows "cursor_advanced t p sheet (sheet[i - 2 := bump t (sheet ! (i - 2))])"
  using get_row_index_found[OF assms] unfolding cursor_advanced_def by blast

lemma advance_sheet_missing:
  assumes "get_row_index_by_phone sheet p = Inl err"
  shows "advance_vocab_index_sheet sheet p = Inl err"
    and "advance_question_progress_sheet sheet p = Inl err"
    and "advance_open_question_progress_sheet sheet p = Inl err"
  using assms
  by (simp_all add: advance_vocab_index_sheet_def advance_question_progress_sheet_def
        advance_open_question_progress_sheet_def with_user_data_def)

lemma advance_vocab_index_sheet_advances:
  assumes "advance_vocab_index_sheet sheet p = Inr sheet'"
  shows "cursor_advanced Vocab p sheet sheet'"
proof (cases "get_row_index_by_phone sheet p")
  case (Inl err)
  with assms show ?thesis by (simp add: advance_sheet_missing(1))
next
  case (Inr i)
  with assms bumped_row_advances[OF Inr, of Vocab] show ?thesis
    by (simp add: update_sheet_bump(1))
qed

lemma advance_question_progress_sheet_advances:
  assumes "advance_question_progress_sheet sheet p = Inr sheet'"
  shows "cursor_advanced Reading p sheet sheet'"
proof (cases "get_row_index_by_phone sheet p")
  case (Inl err)
  with assms show ?thesis by (simp add: advance_sheet_missing(2))
next
  case (Inr i)
  with assms bumped_row_advances[OF Inr, of Reading] show ?thesis
    by (simp add: update_sheet_bump(2))
qed

lemma advance_open_question_progress_sheet_advances:
  assumes "advance_open_question_progress_sheet sheet p = Inr sheet'"
  shows "cursor_advanced OpenReading p sheet sheet'"
proof (cases "get_row_index_by_phone sheet p")
  case (Inl err)
  with assms show ?thesis by (simp add: advance_sheet_missing(3))
next
  case (Inr i)
  with assms bumped_row_advances[OF Inr, of OpenReading] show ?thesis
    by (simp add: update_sheet_bump(3))
qed

section \<open>Sending and starting: what they touch\<close>

lemmas io_defs = io_bind_def io_seq_def io_return_def io_lift_def from_sheet_def emit_def to_sheet_def

lemma send_whatsapp_message_eq:
  "send_whatsapp_message e p m w =
     (Inr (post_ok e (length (trace w)) p m),
      w\<lparr>last_sent_messages := (last_sent_messages w)(p \<mapsto> m),
        trace := trace w @ [Sent p m (post_ok e (length (trace w)) p m)]\<rparr>)"
  by (simp add: send_whatsapp_message_def Let_def)

lemma start_vocab_session_progress:
  "\<exists>evs. trace (snd (start_vocab_session e p sv w)) = trace w @ evs
        \<and> (filter progress_event evs = [Started Vocab p]
           \<or> filter progress_event evs = [Started Vocab p, SessionPut Vocab p])"
  by (auto simp: start_vocab_session_def io_defs send_whatsapp_message_eq put_vocab_session_def
      split: sum.splits option.splits)

lemma start_vocab_session_frame [simp]:
  "user_sheet (snd (start_vocab_session e p sv w)) = user_sheet w"
  "reading_sessions (snd (start_vocab_session e p sv w)) = reading_sessions w"
  "open_reading_sessions (snd (start_vocab_session e p sv w)) = open_reading_sessions w"
  by (auto simp: start_vocab_session_def io_defs send_whatsapp_message_eq put_vocab_session_def
      split: sum.splits option.splits)

lemma start_vocab_session_sessions:
  "vocab_sessions (snd (start_vocab_session e p sv w)) = vocab_sessions w
   \<or> (\<exists>row. vocab_sessions (snd (start_vocab_session e p sv w))
              = (vocab_sessions w)(p \<mapsto> \<lparr>v_attempt = 1, last_vocab = row\<rparr>))"
  by (auto simp: start_vocab_session_def io_defs send_whatsapp_message_eq put_vocab_session_def
      split: sum.splits option.splits)

lemma start_reading_session_progress:
  "\<exists>evs. trace (snd (start_reading_session e p sc pl w)) = trace w @ evs
        \<and> (filter progress_event evs = [Started Reading p]
           \<or> filter progress_event evs = [Started Reading p, SessionPut Reading p])"
  by (auto simp: start_reading_session_def io_defs send_whatsapp_message_eq put_reading_session_def
      split: sum.splits option.splits)

lemma start_reading_session_frame [simp]:
  "user_sheet (snd (start_reading_session e p sc pl w)) = user_sheet w"
  "vocab_sessions (snd (start_reading_session e p sc pl w)) = vocab_sessions w"
  "open_reading_sessions (snd (start_reading_session e p sc pl w)) = open_reading_sessions w"
  by (auto simp: start_reading_session_def io_defs send_whatsapp_message_eq put_reading_session_def
      split: sum.splits option.splits)

lemma start_reading_session_sessions:
  "reading_sessions (snd (start_reading_session e p sc pl w)) = reading_sessions w
   \<or> (\<exists>pa q. reading_sessions (snd (start_reading_session e p sc pl w))
              = (reading_sessions w)(p \<mapsto> \<lparr>r_passage = pa, r_question = q, r_attempt = 1,
                                              r_mode = [], last_user_answer = []\<rparr>))"
  by (auto simp: start_reading_session_def io_defs send_whatsapp_message_eq put_reading_session_def
      split: sum.splits option.splits)

lemma start_open_reading_session_progress:
  "\<exists>evs. trace (snd (start_open_reading_session e p so w)) = trace w @ evs
        \<and> (filter progress_event evs = [Started OpenReading p]
           \<or> filter progress_event evs = [Started OpenReading p, SessionPut OpenReading p])"
  by (auto simp: start_open_reading_session_def io_defs send_whatsapp_message_eq
        put_open_reading_session_def split: sum.splits option.splits)

lemma start_open_reading_session_frame [simp]:
  "user_sheet (snd (start_open_reading_session e p so w)) = user_sheet w"
  "vocab_sessions (snd (start_open_reading_session e p so w)) = vocab_sessions w"
  "reading_sessions (snd (start_open_reading_session e p so w)) = reading_sessions w"
  by (auto simp: start_open_reading_session_def io_defs send_whatsapp_message_eq
        put_open_reading_session_def split: sum.splits option.splits)

section \<open>Evaluating the fixtures\<close>

lemmas fixture_defs = amy_def word1_def word2_def question1_def question2_def open1_def
  scripted_chat_def demo_env_def world0_def vocab_world_def reading_world_def open_world_def

lemmas llm_defs = content_def stripped_content_def evaluate_answer_def is_student_answering_question_def
  is_reply_relevant_to_learning_def give_vocab_correct_reply_def give_vocab_hint_or_explanation_def
  give_hint_or_explanation_def respond_to_reflection_def
  is_correct_true_def is_correct_false_def py_lower_def char_lower_def py_strip_def is_space_def

lemmas sheet_defs = get_row_index_by_phone_def with_user_data_def get_current_answer_def
  get_open_question_objective_def get_open_question_ans_def


lemmas run_defs = handle_vocab_reply_def handle_reading_reply_def handle_open_reading_reply_def
  start_vocab_session_def start_reading_session_def start_open_reading_session_def
  receive_message_def io_defs send_whatsapp_message_eq post_ok_def Let_def
  put_vocab_session_def del_vocab_session_def set_vocab_attempt_def
  put_reading_session_def del_reading_session_def modify_reading_session_def
  put_open_reading_session_def del_open_reading_session_def
  advance_vocab_index_def advance_question_progress_def advance_open_question_progress_def

lemmas more_sheet_defs = sheet_defs get_current_vocab_row_def get_passage_def get_current_question_def
  get_open_question_def get_student_name_by_phone_def update_sheet_def
  advance_vocab_index_sheet_def advance_question_progress_sheet_def advance_open_question_progress_sheet_def

lemmas more_llm_defs = llm_defs ask_vocab_meaning_question_def ask_open_question_def ask_why_correct_def
  generate_question_message_def generate_answer_to_student_question_def greet_student_def
  handle_irrelevant_input_with_llm_def respond_to_open_answer_def


section \<open>Completion events\<close>

lemma with_user_data_found:
  assumes "with_user_data sheet p k = Inr x"
  shows "\<exists>i. get_row_index_by_phone sheet p = Inr i"
  using assms by (cases "get_row_index_by_phone sheet p") (simp_all add: with_user_data_def)

lemma vocab_correct_completes:
  assumes s: "vocab_sessions w p = Some s"
    and ev: "evaluate_answer e r (ChineseExplaination (last_vocab s)) = Inr True"
    and msg: "give_vocab_correct_reply e (last_vocab s) = Inr msg"
    and idx: "get_row_index_by_phone (user_sheet w) p = Inr i"
  shows "completion_effect Vocab p (start_vocab_session e p sv) w (handle_vocab_reply e p r sv w)"
proof -
  define sheet' where "sheet' = (user_sheet w)[i - 2 := bump Vocab (user_sheet w ! (i - 2))]"
  have adv: "advance_vocab_index_sheet (user_sheet w) p = Inr sheet'"
    unfolding sheet'_def by (rule update_sheet_bump(1)[OF idx])
  define W where "W = w\<lparr>last_sent_messages := (last_sent_messages w)(p \<mapsto> msg),
      user_sheet := sheet',
      vocab_sessions := (vocab_sessions w)(p := None),
      trace := trace w @ [Handled Vocab p r, Sent p msg (post_ok e (Suc (length (trace w))) p msg),
                Advanced Vocab p, SessionDel Vocab p]\<rparr>"
  have eq: "handle_vocab_reply e p r sv w = start_vocab_session e p sv W"
    using s ev msg adv
    by (simp add: handle_vocab_reply_def io_defs send_whatsapp_message_eq advance_vocab_index_def
          del_vocab_session_def W_def Let_def)
  obtain evs where evs: "trace (snd (start_vocab_session e p sv W)) = trace W @ evs"
    "filter progress_event evs = [Started Vocab p]
     \<or> filter progress_event evs = [Started Vocab p, SessionPut Vocab p]"
    using start_vocab_session_progress[of e p sv W] by blast
  have ca: "cursor_advanced Vocab p (user_sheet w) sheet'"
    by (rule advance_vocab_index_sheet_advances[OF adv])
  have mid: "\<exists>mid. handle_vocab_reply e p r sv w = start_vocab_session e p sv mid
        \<and> session_absent Vocab p mid
        \<and> session_deleted Vocab p w mid
        \<and> cursor_advanced Vocab p (user_sheet w) (user_sheet mid)
        \<and> filter progress_event (new_events w mid) = [Advanced Vocab p, SessionDel Vocab p]"
    using ca eq by (intro exI[of _ W]) (simp add: W_def new_events_def)
  have fin: "cursor_advanced Vocab p (user_sheet w) (user_sheet (snd (handle_vocab_reply e p r sv w)))
     \<and> (let evs = filter progress_event (new_events w (snd (handle_vocab_reply e p r sv w)))
        in evs = [Advanced Vocab p, SessionDel Vocab p, Started Vocab p]
         \<or> evs = [Advanced Vocab p, SessionDel Vocab p, Started Vocab p, SessionPut Vocab p])"
    using ca evs by (auto simp: new_events_def eq W_def Let_def)
  from mid fin show ?thesis
    unfolding completion_effect_def by blast
qed

lemma vocab_second_incorrect_completes:
  assumes s: "vocab_sessions w p = Some s"
    and att: "v_attempt s \<noteq> 1"
    and ev: "evaluate_answer e r (ChineseExplaination (last_vocab s)) = Inr False"
    and msg: "give_vocab_hint_or_explanation e (last_vocab s) r 2 = Inr msg"
    and idx: "get_row_index_by_phone (user_sheet w) p = Inr i"
  shows "completion_effect Vocab p (start_vocab_session e p sv) w (handle_vocab_reply e p r sv w)"
proof -
  define sheet' where "sheet' = (user_sheet w)[i - 2 := bump Vocab (user_sheet w ! (i - 2))]"
  have adv: "advance_vocab_index_sheet (user_sheet w) p = Inr sheet'"
    unfolding sheet'_def by (rule update_sheet_bump(1)[OF idx])
  define W where "W = w\<lparr>user_sheet := sheet',
      vocab_sessions := (vocab_sessions w)(p := None),
      last_sent_messages := (last_sent_messages w)(p \<mapsto> msg),
      trace := trace w @ [Handled Vocab p r, Advanced Vocab p, SessionDel Vocab p,
                Sent p msg (post_ok e (Suc (Suc (Suc (length (trace w))))) p msg)]\<rparr>"
  have eq: "handle_vocab_reply e p r sv w = start_vocab_session e p sv W"
    using s att ev msg adv
    by (simp add: handle_vocab_reply_def io_defs send_whatsapp_message_eq advance_vocab_index_def
          del_vocab_session_def W_def Let_def)
  obtain evs where evs: "trace (snd (start_vocab_session e p sv W)) = trace W @ evs"
    "filter progress_event evs = [Started Vocab p]
     \<or> filter progress_event evs = [Started Vocab p, SessionPut Vocab p]"
    using start_vocab_session_progress[of e p sv W] by blast
  have ca: "cursor_advanced Vocab p (user_sheet w) sheet'"
    by (rule advance_vocab_index_sheet_advances[OF adv])
  have mid: "\<exists>mid. handle_vocab_reply e p r sv w = start_vocab_session e p sv mid
        \<and> session_absent Vocab p mid
        \<and> session_deleted Vocab p w mid
        \<and> cursor_advanced Vocab p (user_sheet w) (user_sheet mid)
        \<and> filter progress_event (new_events w mid) = [Advanced Vocab p, SessionDel Vocab p]"
    using ca eq by (intro exI[of _ W]) (simp add: W_def new_events_def)
  have fin: "cursor_advanced Vocab p (user_sheet w) (user_sheet (snd (handle_vocab_reply e p r sv w)))
     \<and> (let evs = filter progress_event (new_events w (snd (handle_vocab_reply e p r sv w)))
        in evs = [Advanced Vocab p, SessionDel Vocab p, Started Vocab p]
         \<or> evs = [Advanced Vocab p, SessionDel Vocab p, Started Vocab p, SessionPut Vocab p])"
    using ca evs by (auto simp: new_events_def eq W_def Let_def)
  from mid fin show ?thesis
    unfolding completion_effect_def by blast
qed

lemma reading_third_incorrect_completes:
  assumes s: "reading_sessions w p = Some s"
    and mode: "r_mode s \<noteq> ''reflection''"
    and att: "\<not> r_attempt s < 3"
    and ans: "get_current_answer (user_sheet w) sc p = Inr ca"
    and isa: "is_student_answering_question e r (r_question s) = Inr True"
    and ev: "evaluate_answer e r ca = Inr False"
    and msg: "give_hint_or_explanation e r ca (r_question s) (r_passage s) 3 = Inr msg"
  shows "completion_effect Reading p (start_reading_session e p sc None) w (handle_reading_reply e p r sc w)"
proof -
  obtain i where idx: "get_row_index_by_phone (user_sheet w) p = Inr i"
    using with_user_data_found[OF ans[unfolded get_current_answer_def]] by auto
  define sheet' where "sheet' = (user_sheet w)[i - 2 := bump Reading (user_sheet w ! (i - 2))]"
  have adv: "advance_question_progress_sheet (user_sheet w) p = Inr sheet'"
    unfolding sheet'_def by (rule update_sheet_bump(2)[OF idx])
  define W where "W = w\<lparr>last_sent_messages := (last_sent_messages w)(p \<mapsto> msg),
      user_sheet := sheet',
      reading_sessions := (reading_sessions w)(p := None),
      trace := trace w @ [Handled Reading p r, Sent p msg (post_ok e (Suc (length (trace w))) p msg),
                Advanced Reading p, SessionDel Reading p]\<rparr>"
  have eq: "handle_reading_reply e p r sc w = start_reading_session e p sc None W"
    using s mode att ans isa ev msg adv
    by (simp add: handle_reading_reply_def io_defs send_whatsapp_message_eq advance_question_progress_def
          del_reading_session_def W_def Let_def)
  obtain evs where evs: "trace (snd (start_reading_session e p sc None W)) = trace W @ evs"
    "filter progress_event evs = [Started Reading p]
     \<or> filter progress_event evs = [Started Reading p, SessionPut Reading p]"
    using start_reading_session_progress[of e p sc None W] by blast
  have ca: "cursor_advanced Reading p (user_sheet w) sheet'"
    by (rule advance_question_progress_sheet_advances[OF adv])
  have mid: "\<exists>mid. handle_reading_reply e p r sc w = start_reading_session e p sc None mid
        \<and> session_absent Reading p mid
        \<and> session_deleted Reading p w mid
        \<and> cursor_advanced Reading p (user_sheet w) (user_sheet mid)
        \<and> filter progress_event (new_events w mid) = [Advanced Reading p, SessionDel Reading p]"
    using ca eq by (intro exI[of _ W]) (simp add: W_def new_events_def)
  have fin: "cursor_advanced Reading p (user_sheet w) (user_sheet (snd (handle_reading_reply e p r sc w)))
     \<and> (let evs = filter progress_event (new_events w (snd (handle_reading_reply e p r sc w)))
        in evs = [Advanced Reading p, SessionDel Reading p, Started Reading p]
         \<or> evs = [Advanced Reading p, SessionDel Reading p, Started Reading p, SessionPut Reading p])"
    using ca evs by (auto simp: new_events_def eq W_def Let_def)
  from mid fin show ?thesis
    unfolding completion_effect_def by blast
qed

lemma reading_reflection_completes:
  assumes s: "reading_sessions w p = Some s"
    and mode: "r_mode s = ''reflection''"
    and ans: "get_current_answer (user_sheet w) sc p = Inr ca"
    and msg: "respond_to_reflection e r (r_question s) ca (r_passage s) = Inr msg"
  shows "completion_effect Reading p (start_reading_session e p sc (Some r)) w (handle_reading_reply e p r sc w)"
proof -
  obtain i where idx: "get_row_index_by_phone (user_sheet w) p = Inr i"
    using with_user_data_found[OF ans[unfolded get_current_answer_def]] by auto
  define sheet' where "sheet' = (user_sheet w)[i - 2 := bump Reading (user_sheet w ! (i - 2))]"
  have adv: "advance_question_progress_sheet (user_sheet w) p = Inr sheet'"
    unfolding sheet'_def by (rule update_sheet_bump(2)[OF idx])
  define W where "W = w\<lparr>last_sent_messages := (last_sent_messages w)(p \<mapsto> msg),
      user_sheet := sheet',
      reading_sessions := (reading_sessions w)(p := None),
      trace := trace w @ [Handled Reading p r, Sent p msg (post_ok e (Suc (length (trace w))) p msg),
                Advanced Reading p, SessionDel Reading p]\<rparr>"
  have eq: "handle_reading_reply e p r sc w = start_reading_session e p sc (Some r) W"
    using s mode ans msg adv
    by (simp add: handle_reading_reply_def io_defs send_whatsapp_message_eq advance_question_progress_def
          del_reading_session_def W_def Let_def)
  obtain evs where evs: "trace (snd (start_reading_session e p sc (Some r) W)) = trace W @ evs"
    "filter progress_event evs = [Started Reading p]
     \<or> filter progress_event evs = [Started Reading p, SessionPut Reading p]"
    using start_reading_session_progress[of e p sc "Some r" W] by blast
  have ca: "cursor_advanced Reading p (user_sheet w) sheet'"
    by (rule advance_question_progress_sheet_advances[OF adv])
  have mid: "\<exists>mid. handle_reading_reply e p r sc w = start_reading_session e p sc (Some r) mid
        \<and> session_absent Reading p mid
        \<and> session_deleted Reading p w mid
        \<and> cursor_advanced Reading p (user_sheet w) (user_sheet mid)
        \<and> filter progress_event (new_events w mid) = [Advanced Reading p, SessionDel Reading p]"
    using ca eq by (intro exI[of _ W]) (simp add: W_def new_events_def)
  have fin: "cursor_advanced Reading p (user_sheet w) (user_sheet (snd (handle_reading_reply e p r sc w)))
     \<and> (let evs = filter progress_event (new_events w (snd (handle_reading_reply e p r sc w)))
        in evs = [Advanced Reading p, SessionDel Reading p, Started Reading p]
         \<or> evs = [Advanced Reading p, SessionDel Reading p, Started Reading p, SessionPut Reading p])"
    using ca evs by (auto simp: new_events_def eq W_def Let_def)
  from mid fin show ?thesis
    unfolding completion_effect_def by blast
qed

lemma open_relevant_completes:
  assumes s: "open_reading_sessions w p = Some s"
    and rel: "is_reply_relevant_to_learning e r (o_question s) = Inr True"
    and obj: "get_open_question_objective (user_sheet w) so p = Inr lo"
    and ans: "get_open_question_ans (user_sheet w) so p = Inr a"
  shows "completion_effect OpenReading p (start_open_reading_session e p so) w (handle_open_reading_reply e p r so w)"
proof -
  obtain i where idx: "get_row_index_by_phone (user_sheet w) p = Inr i"
    using with_user_data_found[OF ans[unfolded get_open_question_ans_def]] by auto
  define sheet' where "sheet' = (user_sheet w)[i - 2 := bump OpenReading (user_sheet w ! (i - 2))]"
  have adv: "advance_open_question_progress_sheet (user_sheet w) p = Inr sheet'"
    unfolding sheet'_def by (rule update_sheet_bump(3)[OF idx])
  define msg where "msg = respond_to_open_answer e r (o_question s) lo a"
  define W where "W = w\<lparr>last_sent_messages := (last_sent_messages w)(p \<mapsto> msg),
      user_sheet := sheet',
      open_reading_sessions := (open_reading_sessions w)(p := None),
      trace := trace w @ [Handled OpenReading p r, Sent p msg (post_ok e (Suc (length (trace w))) p msg),
                Advanced OpenReading p, SessionDel OpenReading p]\<rparr>"
  have eq: "handle_open_reading_reply e p r so w = start_open_reading_session e p so W"
    using s rel obj ans adv
    by (simp add: handle_open_reading_reply_def io_defs send_whatsapp_message_eq
          advance_open_question_progress_def del_open_reading_session_def W_def msg_def Let_def)
  obtain evs where evs: "trace (snd (start_open_reading_session e p so W)) = trace W @ evs"
    "filter progress_event evs = [Started OpenReading p]
     \<or> filter progress_event evs = [Started OpenReading p, SessionPut OpenReading p]"
    using start_open_reading_session_progress[of e p so W] by blast
  have ca: "cursor_advanced OpenReading p (user_sheet w) sheet'"
    by (rule advance_open_question_progress_sheet_advances[OF adv])
  have mid: "\<exists>mid. handle_open_reading_reply e p r so w = start_open_reading_session e p so mid
        \<and> session_absent OpenReading p mid
        \<and> session_deleted OpenReading p w mid
        \<and> cursor_advanced OpenReading p (user_sheet w) (user_sheet mid)
        \<and> filter progress_event (new_events w mid) = [Advanced OpenReading p, SessionDel OpenReading p]"
    using ca eq by (intro exI[of _ W]) (simp add: W_def new_events_def)
  have fin: "cursor_advanced OpenReading p (user_sheet w) (user_sheet (snd (handle_open_reading_reply e p r so w)))
     \<and> (let evs = filter progress_event (new_events w (snd (handle_open_reading_reply e p r so w)))
        in evs = [Advanced OpenReading p, SessionDel OpenReading p, Started OpenReading p]
         \<or> evs = [Advanced OpenReading p, SessionDel OpenReading p, Started OpenReading p, SessionPut OpenReading p])"
    using ca evs by (auto simp: new_events_def eq W_def Let_def)
  from mid fin show ?thesis
    unfolding completion_effect_def by blast
qed

text \<open>
  C2: every completion event advances exactly the cursor of its own track by one, deletes the
  session entry of that student and track, and does so before the chained start can write a
  new session: the handler's result is the result of the chained start function run in a
  world whose sheet has the cursor incremented and whose session dictionary of the track has
  no entry for the student. The five completion events: a vocabulary answer judged correct; a vocabulary
  answer judged incorrect at attempt 2; a closed-reading answer judged incorrect at attempt 3;
  a reply to a closed-reading session in reflection mode; a relevant reply to an open-reading
  session. The hypotheses of each say that the generation of the outgoing text and the
  look-ups succeed, as they must for the event to take place.
\<close>

theorem completion_advances_cursor_then_deletes_session:
  "(vocab_sessions w p = Some vs
      \<and> evaluate_answer e r (ChineseExplaination (last_vocab vs)) = Inr True
      \<and> give_vocab_correct_reply e (last_vocab vs) = Inr msg
      \<and> get_row_index_by_phone (user_sheet w) p = Inr i
    \<longrightarrow> completion_effect Vocab p (start_vocab_session e p sv) w (handle_vocab_reply e p r sv w))
 \<and> (vocab_sessions w p = Some vs \<and> v_attempt vs = 2
      \<and> evaluate_answer e r (ChineseExplaination (last_vocab vs)) = Inr False
      \<and> give_vocab_hint_or_explanation e (last_vocab vs) r 2 = Inr msg
      \<and> get_row_index_by_phone (user_sheet w) p = Inr i
    \<longrightarrow> completion_effect Vocab p (start_vocab_session e p sv) w (handle_vocab_reply e p r sv w))
 \<and> (reading_sessions w p = Some rs \<and> r_mode rs \<noteq> ''reflection'' \<and> r_attempt rs = 3
      \<and> get_current_answer (user_sheet w) sc p = Inr ca
      \<and> is_student_answering_question e r (r_question rs) = Inr True
      \<and> evaluate_answer e r ca = Inr False
      \<and> give_hint_or_explanation e r ca (r_question rs) (r_passage rs) 3 = Inr msg
    \<longrightarrow> completion_effect Reading p (start_reading_session e p sc None) w (handle_reading_reply e p r sc w))
 \<and> (reading_sessions w p = Some rs \<and> r_mode rs = ''reflection''
      \<and> get_current_answer (user_sheet w) sc p = Inr ca
      \<and> respond_to_reflection e r (r_question rs) ca (r_passage rs) = Inr msg
    \<longrightarrow> completion_effect Reading p (start_reading_session e p sc (Some r)) w (handle_reading_reply e p r sc w))
 \<and> (open_reading_sessions w p = Some os
      \<and> is_reply_relevant_to_learning e r (o_question os) = Inr True
      \<and> get_open_question_objective (user_sheet w) so p = Inr lo
      \<and> get_open_question_ans (user_sheet w) so p = Inr a
    \<longrightarrow> completion_effect OpenReading p (start_open_reading_session e p so) w (handle_open_reading_reply e p r so w))"
proof (intro conjI impI)
  assume "vocab_sessions w p = Some vs
      \<and> evaluate_answer e r (ChineseExplaination (last_vocab vs)) = Inr True
      \<and> give_vocab_correct_reply e (last_vocab vs) = Inr msg
      \<and> get_row_index_by_phone (user_sheet w) p = Inr i"
  then show "completion_effect Vocab p (start_vocab_session e p sv) w (handle_vocab_reply e p r sv w)"
    using vocab_correct_completes by blast
next
  assume "vocab_sessions w p = Some vs \<and> v_attempt vs = 2
      \<and> evaluate_answer e r (ChineseExplaination (last_vocab vs)) = Inr False
      \<and> give_vocab_hint_or_explanation e (last_vocab vs) r 2 = Inr msg
      \<and> get_row_index_by_phone (user_sheet w) p = Inr i"
  then show "completion_effect Vocab p (start_vocab_session e p sv) w (handle_vocab_reply e p r sv w)"
    using vocab_second_incorrect_completes[of w p vs e r msg i sv] by simp
next
  assume "reading_sessions w p = Some rs \<and> r_mode rs \<noteq> ''reflection'' \<and> r_attempt rs = 3
      \<and> get_current_answer (user_sheet w) sc p = Inr ca
      \<and> is_student_answering_question e r (r_question rs) = Inr True
      \<and> evaluate_answer e r ca = Inr False
      \<and> give_hint_or_explanation e r ca (r_question rs) (r_passage rs) 3 = Inr msg"
  then show "completion_effect Reading p (start_reading_session e p sc None) w (handle_reading_reply e p r sc w)"
    using reading_third_incorrect_completes[of w p rs sc ca e r msg] by simp
next
  assume "reading_sessions w p = Some rs \<and> r_mode rs = ''reflection''
      \<and> get_current_answer (user_sheet w) sc p = Inr ca
      \<and> respond_to_reflection e r (r_question rs) ca (r_passage rs) = Inr msg"
  then show "completion_effect Reading p (start_reading_session e p sc (Some r)) w (handle_reading_reply e p r sc w)"
    using reading_reflection_completes[of w p rs sc ca e r msg] by simp
next
  assume "open_reading_sessions w p = Some os
      \<and> is_reply_relevant_to_learning e r (o_question os) = Inr True
      \<and> get_open_question_objective (user_sheet w) so p = Inr lo
      \<and> get_open_question_ans (user_sheet w) so p = Inr a"
  then show "completion_effect OpenReading p (start_open_reading_session e p so) w (handle_open_reading_reply e p r so w)"
    using open_relevant_completes[of w p os e r so lo a] by simp
qed


text \<open>
  One instance of each of the five events on the fixtures, under a transport that delivers,
  one that raises and one that answers with status 500.
\<close>

theorem completion_advances_cursor_then_deletes_session_witness:
  "vocab_sessions (vocab_world 1) 85291234567 = Some \<lparr>v_attempt = 1, last_vocab = word1\<rparr>
   \<and> evaluate_answer (demo_env True True True (Responded 200)) ''tough'' ''tough'' = Inr True
   \<and> completion_effect Vocab 85291234567
        (start_vocab_session (demo_env True True True (Responded 200)) 85291234567 [word1, word2])
        (vocab_world 1)
        (handle_vocab_reply (demo_env True True True (Responded 200)) 85291234567 ''tough''
               [word1, word2] (vocab_world 1))
   \<and> vocab_sessions (vocab_world 2) 85291234567 = Some \<lparr>v_attempt = 2, last_vocab = word1\<rparr>
   \<and> evaluate_answer (demo_env False True True TransportRaised) ''weak'' ''tough'' = Inr False
   \<and> completion_effect Vocab 85291234567
        (start_vocab_session (demo_env False True True TransportRaised) 85291234567 [word1, word2])
        (vocab_world 2)
        (handle_vocab_reply (demo_env False True True TransportRaised) 85291234567 ''weak''
               [word1, word2] (vocab_world 2))
   \<and> r_attempt (the (reading_sessions (reading_world 3 []) 85291234567)) = 3
   \<and> completion_effect Reading 85291234567
        (start_reading_session (demo_env False True True (Responded 200)) 85291234567 [question1, question2] None)
        (reading_world 3 [])
        (handle_reading_reply (demo_env False True True (Responded 200)) 85291234567 ''school''
               [question1, question2] (reading_world 3 []))
   \<and> r_mode (the (reading_sessions (reading_world 1 ''reflection'') 85291234567)) = ''reflection''
   \<and> completion_effect Reading 85291234567
        (start_reading_session (demo_env True True True (Responded 500)) 85291234567 [question1, question2] (Some ''the text says so''))
        (reading_world 1 ''reflection'')
        (handle_reading_reply (demo_env True True True (Responded 500)) 85291234567 ''the text says so''
               [question1, question2] (reading_world 1 ''reflection''))
   \<and> open_reading_sessions open_world 85291234567 = Some \<lparr>o_question = ''Why might Tom leave?''\<rparr>
   \<and> completion_effect OpenReading 85291234567
        (start_open_reading_session (demo_env True True True (Responded 200)) 85291234567 [open1])
        open_world
        (handle_open_reading_reply (demo_env True True True (Responded 200)) 85291234567 ''he was sleepy''
               [open1] open_world)"
proof -
  let ?P = "85291234567 :: int"
  have h1: "vocab_sessions (vocab_world 1) ?P = Some \<lparr>v_attempt = 1, last_vocab = word1\<rparr>
      \<and> evaluate_answer (demo_env True True True (Responded 200)) ''tough''
           (ChineseExplaination (last_vocab \<lparr>v_attempt = 1, last_vocab = word1\<rparr>)) = Inr True
      \<and> give_vocab_correct_reply (demo_env True True True (Responded 200))
           (last_vocab \<lparr>v_attempt = 1, last_vocab = word1\<rparr>) = Inr ''ok''
      \<and> get_row_index_by_phone (user_sheet (vocab_world 1)) ?P = Inr 2"
    by (simp add: fixture_defs llm_defs sheet_defs)
  have h2: "vocab_sessions (vocab_world 2) ?P = Some \<lparr>v_attempt = 2, last_vocab = word1\<rparr>
      \<and> v_attempt \<lparr>v_attempt = 2, last_vocab = word1\<rparr> = 2
      \<and> evaluate_answer (demo_env False True True TransportRaised) ''weak''
           (ChineseExplaination (last_vocab \<lparr>v_attempt = 2, last_vocab = word1\<rparr>)) = Inr False
      \<and> give_vocab_hint_or_explanation (demo_env False True True TransportRaised)
           (last_vocab \<lparr>v_attempt = 2, last_vocab = word1\<rparr>) ''weak'' 2 = Inr ''ok''
      \<and> get_row_index_by_phone (user_sheet (vocab_world 2)) ?P = Inr 2"
    by (simp add: fixture_defs llm_defs sheet_defs)
  let ?rs3 = "\<lparr>r_passage = ''Tom went home early.'', r_question = ''Where did Tom go?'',
                 r_attempt = 3, r_mode = [], last_user_answer = []\<rparr>"
  have h3: "reading_sessions (reading_world 3 []) ?P = Some ?rs3
      \<and> r_mode ?rs3 \<noteq> ''reflection'' \<and> r_attempt ?rs3 = 3
      \<and> get_current_answer (user_sheet (reading_world 3 [])) [question1, question2] ?P = Inr ''home''
      \<and> is_student_answering_question (demo_env False True True (Responded 200)) ''school'' (r_question ?rs3) = Inr True
      \<and> evaluate_answer (demo_env False True True (Responded 200)) ''school'' ''home'' = Inr False
      \<and> give_hint_or_explanation (demo_env False True True (Responded 200)) ''school'' ''home''
           (r_question ?rs3) (r_passage ?rs3) 3 = Inr ''ok''"
    by (simp add: fixture_defs llm_defs sheet_defs)
  let ?rsr = "\<lparr>r_passage = ''Tom went home early.'', r_question = ''Where did Tom go?'',
                 r_attempt = 1, r_mode = ''reflection'', last_user_answer = []\<rparr>"
  have h4: "reading_sessions (reading_world 1 ''reflection'') ?P = Some ?rsr
      \<and> r_mode ?rsr = ''reflection''
      \<and> get_current_answer (user_sheet (reading_world 1 ''reflection'')) [question1, question2] ?P = Inr ''home''
      \<and> respond_to_reflection (demo_env True True True (Responded 500)) ''the text says so''
           (r_question ?rsr) ''home'' (r_passage ?rsr) = Inr ''ok''"
    by (simp add: fixture_defs llm_defs sheet_defs)
  let ?os = "\<lparr>o_question = ''Why might Tom leave?''\<rparr>"
  have h5: "open_reading_sessions open_world ?P = Some ?os
      \<and> is_reply_relevant_to_learning (demo_env True True True (Responded 200)) ''he was sleepy'' (o_question ?os) = Inr True
      \<and> get_open_question_objective (user_sheet open_world) [open1] ?P = Inr ''inference''
      \<and> get_open_question_ans (user_sheet open_world) [open1] ?P = Inr ''he was tired''"
    by (simp add: fixture_defs llm_defs sheet_defs)
  note c1 = completion_advances_cursor_then_deletes_session[THEN conjunct1, THEN mp, OF h1]
  note c2 = completion_advances_cursor_then_deletes_session[THEN conjunct2, THEN conjunct1, THEN mp, OF h2]
  note c3 = completion_advances_cursor_then_deletes_session[THEN conjunct2, THEN conjunct2, THEN conjunct1, THEN mp, OF h3]
  note c4 = completion_advances_cursor_then_deletes_session[THEN conjunct2, THEN conjunct2, THEN conjunct2, THEN conjunct1, THEN mp, OF h4]
  note c5 = completion_advances_cursor_then_deletes_session[THEN conjunct2, THEN conjunct2, THEN conjunct2, THEN conjunct2, THEN mp, OF h5]
  have e1: "evaluate_answer (demo_env True True True (Responded 200)) ''tough'' ''tough'' = Inr True"
    and e2: "evaluate_answer (demo_env False True True TransportRaised) ''weak'' ''tough'' = Inr False"
    by (simp_all add: fixture_defs llm_defs)
  have r3: "r_attempt (the (reading_sessions (reading_world 3 []) ?P)) = 3"
    and r4: "r_mode (the (reading_sessions (reading_world 1 ''reflection'') ?P)) = ''reflection''"
    by (simp_all add: fixture_defs)
  from h1 h2 h5 c1 c2 c3 c4 c5 e1 e2 r3 r4 show ?thesis by blast
qed

section \<open>The attempt counters\<close>

lemma attempts_in_range_alt:
  "attempts_in_range w \<longleftrightarrow> vocab_ok (vocab_sessions w) \<and> reading_ok (reading_sessions w)"
  by (simp add: attempts_in_range_def vocab_ok_def reading_ok_def)

lemma vocab_ok_del: "vocab_ok m \<Longrightarrow> vocab_ok (m(p := None))"
  by (simp add: vocab_ok_def)

lemma vocab_ok_put: "vocab_ok m \<Longrightarrow> v_attempt s = 1 \<or> v_attempt s = 2 \<Longrightarrow> vocab_ok (m(p \<mapsto> s))"
  by (simp add: vocab_ok_def)

lemma reading_ok_del: "reading_ok m \<Longrightarrow> reading_ok (m(p := None))"
  by (simp add: reading_ok_def)

lemma reading_ok_put:
  "reading_ok m \<Longrightarrow> r_mode s = ''reflection'' \<or> r_attempt s = 1 \<or> r_attempt s = 2 \<or> r_attempt s = 3
     \<Longrightarrow> reading_ok (m(p \<mapsto> s))"
  by (auto simp: reading_ok_def)

lemma reading_ok_get:
  "reading_ok m \<Longrightarrow> m p = Some s \<Longrightarrow> r_mode s \<noteq> ''reflection''
     \<Longrightarrow> r_attempt s = 1 \<or> r_attempt s = 2 \<or> r_attempt s = 3"
  unfolding reading_ok_def by blast

lemma reading_ok_incr:
  assumes "reading_ok m" "m p = Some s" "r_attempt s < 3"
  shows "reading_ok (m(p \<mapsto> s\<lparr>r_attempt := r_attempt s + 1\<rparr>))"
proof (cases "r_mode s = ''reflection''")
  case True
  then show ?thesis by (intro reading_ok_put[OF assms(1)]) simp
next
  case False
  from reading_ok_get[OF assms(1,2) False] assms(3)
  have "r_attempt s = 1 \<or> r_attempt s = 2" by auto
  then show ?thesis by (intro reading_ok_put[OF assms(1)]) auto
qed

lemma start_vocab_session_vocab_ok:
  assumes "vocab_ok (vocab_sessions w)"
  shows "vocab_ok (vocab_sessions (snd (start_vocab_session e p sv w)))"
  using start_vocab_session_sessions[of e p sv w] assms
  by (auto simp: vocab_ok_put)

lemma start_reading_session_reading_ok:
  assumes "reading_ok (reading_sessions w)"
  shows "reading_ok (reading_sessions (snd (start_reading_session e p sc pl w)))"
  using start_reading_session_sessions[of e p sc pl w] assms
  by (auto simp: reading_ok_put)

lemma start_vocab_session_in_range:
  "attempts_in_range w \<Longrightarrow> attempts_in_range (snd (start_vocab_session e p sv w))"
  by (simp add: attempts_in_range_alt start_vocab_session_vocab_ok)

lemma start_reading_session_in_range:
  "attempts_in_range w \<Longrightarrow> attempts_in_range (snd (start_reading_session e p sc pl w))"
  by (simp add: attempts_in_range_alt start_reading_session_reading_ok)

lemma start_open_reading_session_in_range:
  "attempts_in_range w \<Longrightarrow> attempts_in_range (snd (start_open_reading_session e p so w))"
  by (simp add: attempts_in_range_alt)

lemmas ok_simps = attempts_in_range_alt vocab_ok_del vocab_ok_put reading_ok_del reading_ok_put
  reading_ok_incr
  start_vocab_session_vocab_ok start_reading_session_reading_ok

lemma in_range_bind:
  assumes "attempts_in_range (snd (m w))"
    and "\<And>x w'. m w = (Inr x, w') \<Longrightarrow> attempts_in_range w' \<Longrightarrow> attempts_in_range (snd (k x w'))"
  shows "attempts_in_range (snd (io_bind m k w))"
proof (cases "m w")
  case (Pair r w')
  show ?thesis
  proof (cases r)
    case (Inl err)
    with Pair assms(1) show ?thesis by (simp add: io_bind_def)
  next
    case (Inr x)
    with Pair assms(1) assms(2)[of x w'] show ?thesis by (simp add: io_bind_def)
  qed
qed

lemma in_range_seq:
  assumes "attempts_in_range (snd (m w))"
    and "\<And>x w'. m w = (Inr x, w') \<Longrightarrow> attempts_in_range w' \<Longrightarrow> attempts_in_range (snd (k w'))"
  shows "attempts_in_range (snd (io_seq m k w))"
  unfolding io_seq_def using assms by (rule in_range_bind)

lemmas prim_defs = io_return_def io_lift_def from_sheet_def emit_def to_sheet_def
  send_whatsapp_message_eq

lemma in_range_prims:
  assumes "attempts_in_range w"
  shows "attempts_in_range (snd (io_return x w))"
    and "attempts_in_range (snd (io_lift r w))"
    and "attempts_in_range (snd (from_sheet f w))"
    and "attempts_in_range (snd (emit ev w))"
    and "attempts_in_range (snd (to_sheet t p g w))"
    and "attempts_in_range (snd (send_whatsapp_message e p msg w))"
    and "attempts_in_range (snd (del_vocab_session p w))"
    and "attempts_in_range (snd (set_vocab_attempt p 2 w))"
    and "attempts_in_range (snd (del_reading_session p w))"
    and "attempts_in_range (snd (del_open_reading_session p w))"
    and "attempts_in_range (snd (advance_vocab_index p w))"
    and "attempts_in_range (snd (advance_question_progress p w))"
    and "attempts_in_range (snd (advance_open_question_progress p w))"
  using assms
  by (auto simp: prim_defs ok_simps del_vocab_session_def set_vocab_attempt_def
        del_reading_session_def del_open_reading_session_def advance_vocab_index_def
        advance_question_progress_def advance_open_question_progress_def
      split: sum.splits option.splits)

lemma handle_vocab_reply_in_range:
  assumes "attempts_in_range w"
  shows "attempts_in_range (snd (handle_vocab_reply e p r sv w))"
  unfolding handle_vocab_reply_def Let_def
  using assms
  by (auto intro!: in_range_bind in_range_seq in_range_prims start_vocab_session_in_range
        split: option.splits)

lemma handle_open_reading_reply_in_range:
  assumes "attempts_in_range w"
  shows "attempts_in_range (snd (handle_open_reading_reply e p r so w))"
  unfolding handle_open_reading_reply_def Let_def
  using assms
  by (auto intro!: in_range_bind in_range_seq in_range_prims start_open_reading_session_in_range
        split: option.splits)

lemma modify_reflection_in_range:
  assumes "attempts_in_range w"
  shows "attempts_in_range (snd (modify_reading_session p
           (\<lambda>s. s\<lparr>r_mode := ''reflection'', last_user_answer := u\<rparr>) w))"
  using assms by (auto simp: modify_reading_session_def ok_simps split: option.splits)

lemma modify_incr_in_range:
  assumes "attempts_in_range w" "\<And>s. reading_sessions w p = Some s \<Longrightarrow> r_attempt s < 3"
  shows "attempts_in_range (snd (modify_reading_session p (\<lambda>s. s\<lparr>r_attempt := r_attempt s + 1\<rparr>) w))"
  using assms by (auto simp: modify_reading_session_def ok_simps split: option.splits)

lemma handle_reading_reply_in_range:
  assumes "attempts_in_range w"
  shows "attempts_in_range (snd (handle_reading_reply e p r sc w))"
  unfolding handle_reading_reply_def Let_def
  using assms
  by (auto intro!: in_range_bind in_range_seq in_range_prims start_reading_session_in_range
        modify_reflection_in_range modify_incr_in_range
        simp: prim_defs
        split: option.splits)

lemma receive_message_in_range:
  assumes "attempts_in_range w"
  shows "attempts_in_range (snd (receive_message e p raw w))"
  unfolding receive_message_def Let_def
  using assms
  by (auto intro!: in_range_bind in_range_seq in_range_prims
        start_vocab_session_in_range start_reading_session_in_range start_open_reading_session_in_range
        handle_vocab_reply_in_range handle_reading_reply_in_range handle_open_reading_reply_in_range
        simp: prim_defs)


lemma run_in_range:
  "attempts_in_range w \<Longrightarrow> attempts_in_range (run turns w)"
proof (induction turns arbitrary: w)
  case Nil
  then show ?case by simp
next
  case (Cons turn turns)
  obtain e p raw where turn: "turn = (e, p, raw)" by (cases turn)
  from Cons.prems have "attempts_in_range (snd (receive_message e p raw w))"
    by (rule receive_message_in_range)
  then show ?case unfolding turn by (simp add: Cons.IH)
qed

text \<open>
  C5: if every stored vocabulary session has attempt 1 or 2 and every stored closed-reading
  session in normal mode has attempt 1, 2 or 3, then the same holds after each start
  function, after each reply handler, after the dispatcher and after any run of inbound
  messages, whether the step ends normally or raises. A session written by a start function
  has attempt 1 (and, for closed reading, normal mode).
\<close>

theorem attempt_counters_stay_in_range:
  assumes "attempts_in_range w"
  shows "attempts_in_range (snd (start_vocab_session e p sv w))
       \<and> attempts_in_range (snd (start_reading_session e p sc pl w))
       \<and> attempts_in_range (snd (start_open_reading_session e p so w))
       \<and> attempts_in_range (snd (handle_vocab_reply e p r sv w))
       \<and> attempts_in_range (snd (handle_reading_reply e p r sc w))
       \<and> attempts_in_range (snd (handle_open_reading_reply e p r so w))
       \<and> attempts_in_range (snd (receive_message e p r w))
       \<and> attempts_in_range (run turns w)
       \<and> (vocab_sessions (snd (start_vocab_session e p sv w)) = vocab_sessions w
          \<or> (\<exists>row. vocab_sessions (snd (start_vocab_session e p sv w))
                 = (vocab_sessions w)(p \<mapsto> \<lparr>v_attempt = 1, last_vocab = row\<rparr>)))
       \<and> (reading_sessions (snd (start_reading_session e p sc pl w)) = reading_sessions w
          \<or> (\<exists>pa q. reading_sessions (snd (start_reading_session e p sc pl w))
                 = (reading_sessions w)(p \<mapsto> \<lparr>r_passage = pa, r_question = q, r_attempt = 1,
                                              r_mode = [], last_user_answer = []\<rparr>)))"
  using assms start_vocab_session_sessions[of e p sv w] start_reading_session_sessions[of e p sc pl w]
  by (simp add: start_vocab_session_in_range start_reading_session_in_range
        start_open_reading_session_in_range handle_vocab_reply_in_range
        handle_reading_reply_in_range handle_open_reading_reply_in_range receive_message_in_range
        run_in_range)

text \<open>
  On the fixtures: a wrong first vocabulary answer leaves attempt 2, and a wrong second
  closed-reading answer leaves attempt 3.
\<close>

theorem attempt_counters_stay_in_range_witness:
  "attempts_in_range (vocab_world 1)
   \<and> attempts_in_range (snd (handle_vocab_reply (demo_env False True True TransportRaised)
        85291234567 ''weak'' [word1, word2] (vocab_world 1)))
   \<and> map_option v_attempt (vocab_sessions (snd (handle_vocab_reply (demo_env False True True TransportRaised)
        85291234567 ''weak'' [word1, word2] (vocab_world 1))) 85291234567) = Some 2
   \<and> attempts_in_range (reading_world 2 [])
   \<and> attempts_in_range (snd (handle_reading_reply (demo_env False True True TransportRaised)
        85291234567 ''school'' [question1, question2] (reading_world 2 [])))
   \<and> map_option r_attempt (reading_sessions (snd (handle_reading_reply (demo_env False True True TransportRaised)
        85291234567 ''school'' [question1, question2] (reading_world 2 []))) 85291234567) = Some 3"
proof -
  have v: "attempts_in_range (vocab_world 1)" and r: "attempts_in_range (reading_world 2 [])"
    by (simp_all add: attempts_in_range_def fixture_defs)
  have v2: "map_option v_attempt (vocab_sessions (snd (handle_vocab_reply (demo_env False True True TransportRaised)
        85291234567 ''weak'' [word1, word2] (vocab_world 1))) 85291234567) = Some 2"
    by (simp add: run_defs fixture_defs more_llm_defs more_sheet_defs)
  have r3: "map_option r_attempt (reading_sessions (snd (handle_reading_reply (demo_env False True True TransportRaised)
        85291234567 ''school'' [question1, question2] (reading_world 2 []))) 85291234567) = Some 3"
    by (simp add: run_defs fixture_defs more_llm_defs more_sheet_defs)
  from attempt_counters_stay_in_range[OF v] attempt_counters_stay_in_range[OF r] v r v2 r3
  show ?thesis by blast
qed

section \<open>A relevant question during closed reading\<close>

text \<open>
  C6: a closed-reading session in normal mode, a message judged not to be an answer attempt
  but relevant to learning (the look-up of the current answer, which the handler performs
  first, and the generation of the direct answer succeed): the handler returns normally, the
  only message sent is the direct answer, the session entry is the one stored before
  (passage, question, attempt, mode and last answer), no other session changes and the
  user sheet, hence every cursor, is unchanged.
\<close>

theorem relevant_question_leaves_reading_session_unchanged:
  assumes "reading_sessions w p = Some s"
    and "r_mode s \<noteq> ''reflection''"
    and "get_current_answer (user_sheet w) sc p = Inr ca"
    and "is_student_answering_question e r (r_question s) = Inr False"
    and "is_reply_relevant_to_learning e r (r_question s) = Inr True"
    and "generate_answer_to_student_question e r = Inr reply"
  shows "fst (handle_reading_reply e p r sc w) = Inr ()
       \<and> new_events w (snd (handle_reading_reply e p r sc w))
            = [Handled Reading p r, Sent p reply (post_ok e (Suc (length (trace w))) p reply)]
       \<and> reading_sessions (snd (handle_reading_reply e p r sc w)) = reading_sessions w
       \<and> reading_sessions (snd (handle_reading_reply e p r sc w)) p = Some s
       \<and> vocab_sessions (snd (handle_reading_reply e p r sc w)) = vocab_sessions w
       \<and> open_reading_sessions (snd (handle_reading_reply e p r sc w)) = open_reading_sessions w
       \<and> user_sheet (snd (handle_reading_reply e p r sc w)) = user_sheet w"
  using assms
  by (simp add: handle_reading_reply_def io_defs send_whatsapp_message_eq new_events_def Let_def)

text \<open>A grammar question asked during the second attempt at a closed question.\<close>

theorem relevant_question_leaves_reading_session_unchanged_witness:
  "reading_sessions (reading_world 2 []) 85291234567
     = Some \<lparr>r_passage = ''Tom went home early.'', r_question = ''Where did Tom go?'',
             r_attempt = 2, r_mode = [], last_user_answer = []\<rparr>
   \<and> is_student_answering_question (demo_env False False True (Responded 200)) ''what is a noun?'' ''Where did Tom go?'' = Inr False
   \<and> is_reply_relevant_to_learning (demo_env False False True (Responded 200)) ''what is a noun?'' ''Where did Tom go?'' = Inr True
   \<and> new_events (reading_world 2 [])
        (snd (handle_reading_reply (demo_env False False True (Responded 200)) 85291234567 ''what is a noun?''
               [question1, question2] (reading_world 2 [])))
        = [Handled Reading 85291234567 ''what is a noun?'', Sent 85291234567 ''ok'' True]
   \<and> reading_sessions (snd (handle_reading_reply (demo_env False False True (Responded 200)) 85291234567
               ''what is a noun?'' [question1, question2] (reading_world 2 []))) 85291234567
     = Some \<lparr>r_passage = ''Tom went home early.'', r_question = ''Where did Tom go?'',
             r_attempt = 2, r_mode = [], last_user_answer = []\<rparr>
   \<and> user_sheet (snd (handle_reading_reply (demo_env False False True (Responded 200)) 85291234567
               ''what is a noun?'' [question1, question2] (reading_world 2 []))) = [amy]"
proof -
  let ?e = "demo_env False False True (Responded 200)"
  let ?s = "\<lparr>r_passage = ''Tom went home early.'', r_question = ''Where did Tom go?'',
             r_attempt = 2, r_mode = [], last_user_answer = []\<rparr>"
  have h1: "reading_sessions (reading_world 2 []) 85291234567 = Some ?s"
    by (simp add: fixture_defs)
  have h2: "r_mode ?s \<noteq> ''reflection''" by simp
  have h3: "get_current_answer (user_sheet (reading_world 2 [])) [question1, question2] 85291234567 = Inr ''home''"
    by (simp add: fixture_defs more_sheet_defs)
  have h4: "is_student_answering_question ?e ''what is a noun?'' (r_question ?s) = Inr False"
    by (simp add: fixture_defs more_llm_defs)
  have h5: "is_reply_relevant_to_learning ?e ''what is a noun?'' (r_question ?s) = Inr True"
    by (simp add: fixture_defs more_llm_defs)
  have h6: "generate_answer_to_student_question ?e ''what is a noun?'' = Inr ''ok''"
    by (simp add: fixture_defs more_llm_defs)
  have ok: "post_ok ?e (Suc (length (trace (reading_world 2 [])))) 85291234567 ''ok''"
    by (simp add: post_ok_def fixture_defs)
  have sheet: "user_sheet (reading_world 2 []) = [amy]" by (simp add: fixture_defs)
  from relevant_question_leaves_reading_session_unchanged[OF h1 h2 h3 h4 h5 h6] h1 h4 h5 ok sheet
  show ?thesis by simp
qed

section \<open>Failed sends\<close>

lemma start_vocab_session_trace:
  "\<exists>evs. trace (snd (start_vocab_session e p sv w)) = trace w @ evs"
  using start_vocab_session_progress[of e p sv w] by blast

lemma vocab_exhaustion_order:
  assumes s: "vocab_sessions w p = Some s"
    and att: "v_attempt s \<noteq> 1"
    and ev: "evaluate_answer e r (ChineseExplaination (last_vocab s)) = Inr False"
    and msg: "give_vocab_hint_or_explanation e (last_vocab s) r 2 = Inr msg"
    and idx: "get_row_index_by_phone (user_sheet w) p = Inr i"
  shows "take 4 (new_events w (snd (handle_vocab_reply e p r sv w)))
           = [Handled Vocab p r, Advanced Vocab p, SessionDel Vocab p,
              Sent p msg (post_ok e (Suc (Suc (Suc (length (trace w))))) p msg)]"
proof -
  define sheet' where "sheet' = (user_sheet w)[i - 2 := bump Vocab (user_sheet w ! (i - 2))]"
  have adv: "advance_vocab_index_sheet (user_sheet w) p = Inr sheet'"
    unfolding sheet'_def by (rule update_sheet_bump(1)[OF idx])
  define W where "W = w\<lparr>user_sheet := sheet',
      vocab_sessions := (vocab_sessions w)(p := None),
      last_sent_messages := (last_sent_messages w)(p \<mapsto> msg),
      trace := trace w @ [Handled Vocab p r, Advanced Vocab p, SessionDel Vocab p,
                Sent p msg (post_ok e (Suc (Suc (Suc (length (trace w))))) p msg)]\<rparr>"
  have eq: "handle_vocab_reply e p r sv w = start_vocab_session e p sv W"
    using s att ev msg adv
    by (simp add: handle_vocab_reply_def io_defs send_whatsapp_message_eq advance_vocab_index_def
          del_vocab_session_def W_def Let_def)
  obtain evs where "trace (snd (start_vocab_session e p sv W)) = trace W @ evs"
    using start_vocab_session_trace[of e p sv W] by blast
  then show ?thesis
    by (simp add: eq new_events_def W_def)
qed

lemma vocab_correct_order:
  assumes s: "vocab_sessions w p = Some s"
    and ev: "evaluate_answer e r (ChineseExplaination (last_vocab s)) = Inr True"
    and msg: "give_vocab_correct_reply e (last_vocab s) = Inr msg"
    and idx: "get_row_index_by_phone (user_sheet w) p = Inr i"
  shows "take 4 (new_events w (snd (handle_vocab_reply e p r sv w)))
           = [Handled Vocab p r, Sent p msg (post_ok e (Suc (length (trace w))) p msg),
              Advanced Vocab p, SessionDel Vocab p]"
proof -
  define sheet' where "sheet' = (user_sheet w)[i - 2 := bump Vocab (user_sheet w ! (i - 2))]"
  have adv: "advance_vocab_index_sheet (user_sheet w) p = Inr sheet'"
    unfolding sheet'_def by (rule update_sheet_bump(1)[OF idx])
  define W where "W = w\<lparr>last_sent_messages := (last_sent_messages w)(p \<mapsto> msg),
      user_sheet := sheet',
      vocab_sessions := (vocab_sessions w)(p := None),
      trace := trace w @ [Handled Vocab p r, Sent p msg (post_ok e (Suc (length (trace w))) p msg),
                Advanced Vocab p, SessionDel Vocab p]\<rparr>"
  have eq: "handle_vocab_reply e p r sv w = start_vocab_session e p sv W"
    using s ev msg adv
    by (simp add: handle_vocab_reply_def io_defs send_whatsapp_message_eq advance_vocab_index_def
          del_vocab_session_def W_def Let_def)
  obtain evs where "trace (snd (start_vocab_session e p sv W)) = trace W @ evs"
    using start_vocab_session_trace[of e p sv W] by blast
  then show ?thesis
    by (simp add: eq new_events_def W_def)
qed

lemma completion_effect_final:
  "completion_effect t p chained w res \<Longrightarrow> cursor_advanced t p (user_sheet w) (user_sheet (snd res))"
  by (simp add: completion_effect_def)

lemma vocab_exhaustion_state:
  assumes s: "vocab_sessions w p = Some s"
    and att: "v_attempt s \<noteq> 1"
    and ev: "evaluate_answer e r (ChineseExplaination (last_vocab s)) = Inr False"
    and msg: "give_vocab_hint_or_explanation e (last_vocab s) r 2 = Inr msg"
    and idx: "get_row_index_by_phone (user_sheet w) p = Inr i"
  shows "\<exists>before_send.
           vocab_sessions before_send p = None
         \<and> vocab_sessions before_send = (vocab_sessions w)(p := None)
         \<and> cursor_advanced Vocab p (user_sheet w) (user_sheet before_send)
         \<and> new_events w before_send = [Handled Vocab p r, Advanced Vocab p, SessionDel Vocab p]
         \<and> handle_vocab_reply e p r sv w
             = start_vocab_session e p sv (snd (send_whatsapp_message e p msg before_send))"
proof -
  define sheet' where "sheet' = (user_sheet w)[i - 2 := bump Vocab (user_sheet w ! (i - 2))]"
  have adv: "advance_vocab_index_sheet (user_sheet w) p = Inr sheet'"
    unfolding sheet'_def by (rule update_sheet_bump(1)[OF idx])
  have ca: "cursor_advanced Vocab p (user_sheet w) sheet'"
    by (rule advance_vocab_index_sheet_advances[OF adv])
  define W where "W = w\<lparr>user_sheet := sheet',
      vocab_sessions := (vocab_sessions w)(p := None),
      trace := trace w @ [Handled Vocab p r, Advanced Vocab p, SessionDel Vocab p]\<rparr>"
  have eq: "handle_vocab_reply e p r sv w
             = start_vocab_session e p sv (snd (send_whatsapp_message e p msg W))"
    using s att ev msg adv
    by (simp add: handle_vocab_reply_def io_defs send_whatsapp_message_eq advance_vocab_index_def
          del_vocab_session_def W_def Let_def)
  show ?thesis
    using ca eq by (intro exI[of _ W]) (simp add: W_def new_events_def)
qed

lemma vocab_correct_state:
  assumes s: "vocab_sessions w p = Some s"
    and ev: "evaluate_answer e r (ChineseExplaination (last_vocab s)) = Inr True"
    and msg: "give_vocab_correct_reply e (last_vocab s) = Inr msg"
    and idx: "get_row_index_by_phone (user_sheet w) p = Inr i"
  shows "\<exists>after_delete.
           vocab_sessions after_delete p = None
         \<and> vocab_sessions after_delete = (vocab_sessions w)(p := None)
         \<and> cursor_advanced Vocab p (user_sheet w) (user_sheet after_delete)
         \<and> new_events w after_delete
             = [Handled Vocab p r, Sent p msg (post_ok e (Suc (length (trace w))) p msg),
                Advanced Vocab p, SessionDel Vocab p]
         \<and> handle_vocab_reply e p r sv w = start_vocab_session e p sv after_delete"
proof -
  define sheet' where "sheet' = (user_sheet w)[i - 2 := bump Vocab (user_sheet w ! (i - 2))]"
  have adv: "advance_vocab_index_sheet (user_sheet w) p = Inr sheet'"
    unfolding sheet'_def by (rule update_sheet_bump(1)[OF idx])
  have ca: "cursor_advanced Vocab p (user_sheet w) sheet'"
    by (rule advance_vocab_index_sheet_advances[OF adv])
  define W where "W = w\<lparr>last_sent_messages := (last_sent_messages w)(p \<mapsto> msg),
      user_sheet := sheet',
      vocab_sessions := (vocab_sessions w)(p := None),
      trace := trace w @ [Handled Vocab p r, Sent p msg (post_ok e (Suc (length (trace w))) p msg),
                Advanced Vocab p, SessionDel Vocab p]\<rparr>"
  have eq: "handle_vocab_reply e p r sv w = start_vocab_session e p sv W"
    using s ev msg adv
    by (simp add: handle_vocab_reply_def io_defs send_whatsapp_message_eq advance_vocab_index_def
          del_vocab_session_def W_def Let_def)
  show ?thesis
    using ca eq by (intro exI[of _ W]) (simp add: W_def new_events_def)
qed

text \<open>
  C7: \<open>send_whatsapp_message\<close> never raises: it returns \<open>True\<close> exactly when the
  transport answered with status 200 and \<open>False\<close> for any other status or a raised
  transport exception, and it touches neither the user sheet nor any session. In the
  vocabulary attempt-2 exhaustion path the explanation is sent from a world in which the
  cursor is already incremented in the sheet and the student's entry is already gone from
  the vocabulary session dictionary; the handler then goes on with the chained start, and
  the cursor stays advanced whatever the transport does. After a correct vocabulary answer
  the praise is sent first, and the cursor increment and the session deletion follow whether
  or not the praise was delivered.
\<close>

theorem failed_send_is_false_and_keeps_progress:
  "fst (send_whatsapp_message e p m w) = Inr (transport e (length (trace w)) p m = Responded 200)
   \<and> user_sheet (snd (send_whatsapp_message e p m w)) = user_sheet w
   \<and> vocab_sessions (snd (send_whatsapp_message e p m w)) = vocab_sessions w
   \<and> reading_sessions (snd (send_whatsapp_message e p m w)) = reading_sessions w
   \<and> open_reading_sessions (snd (send_whatsapp_message e p m w)) = open_reading_sessions w
   \<and> (vocab_sessions w p = Some vs \<and> v_attempt vs = 2
        \<and> evaluate_answer e r (ChineseExplaination (last_vocab vs)) = Inr False
        \<and> give_vocab_hint_or_explanation e (last_vocab vs) r 2 = Inr msg
        \<and> get_row_index_by_phone (user_sheet w) p = Inr i
      \<longrightarrow> take 4 (new_events w (snd (handle_vocab_reply e p r sv w)))
             = [Handled Vocab p r, Advanced Vocab p, SessionDel Vocab p,
                Sent p msg (transport e (length (trace w) + 3) p msg = Responded 200)]
        \<and> cursor_advanced Vocab p (user_sheet w) (user_sheet (snd (handle_vocab_reply e p r sv w)))
        \<and> (\<exists>before_send.
               vocab_sessions before_send p = None
             \<and> vocab_sessions before_send = (vocab_sessions w)(p := None)
             \<and> cursor_advanced Vocab p (user_sheet w) (user_sheet before_send)
             \<and> new_events w before_send = [Handled Vocab p r, Advanced Vocab p, SessionDel Vocab p]
             \<and> handle_vocab_reply e p r sv w
                 = start_vocab_session e p sv (snd (send_whatsapp_message e p msg before_send))))
   \<and> (vocab_sessions w p = Some vs
        \<and> evaluate_answer e r (ChineseExplaination (last_vocab vs)) = Inr True
        \<and> give_vocab_correct_reply e (last_vocab vs) = Inr msg
        \<and> get_row_index_by_phone (user_sheet w) p = Inr i
      \<longrightarrow> take 4 (new_events w (snd (handle_vocab_reply e p r sv w)))
             = [Handled Vocab p r, Sent p msg (transport e (length (trace w) + 1) p msg = Responded 200),
                Advanced Vocab p, SessionDel Vocab p]
        \<and> cursor_advanced Vocab p (user_sheet w) (user_sheet (snd (handle_vocab_reply e p r sv w)))
        \<and> (\<exists>after_delete.
               vocab_sessions after_delete p = None
             \<and> vocab_sessions after_delete = (vocab_sessions w)(p := None)
             \<and> cursor_advanced Vocab p (user_sheet w) (user_sheet after_delete)
             \<and> new_events w after_delete
                 = [Handled Vocab p r, Sent p msg (transport e (length (trace w) + 1) p msg = Responded 200),
                    Advanced Vocab p, SessionDel Vocab p]
             \<and> handle_vocab_reply e p r sv w = start_vocab_session e p sv after_delete))"
proof -
  have ok: "post_ok e n p t = (transport e n p t = Responded 200)" for n t
    by (simp add: post_ok_def split: transport_result.splits)
  have a: "take 4 (new_events w (snd (handle_vocab_reply e p r sv w)))
             = [Handled Vocab p r, Advanced Vocab p, SessionDel Vocab p,
                Sent p msg (transport e (length (trace w) + 3) p msg = Responded 200)]
        \<and> cursor_advanced Vocab p (user_sheet w) (user_sheet (snd (handle_vocab_reply e p r sv w)))
        \<and> (\<exists>before_send.
               vocab_sessions before_send p = None
             \<and> vocab_sessions before_send = (vocab_sessions w)(p := None)
             \<and> cursor_advanced Vocab p (user_sheet w) (user_sheet before_send)
             \<and> new_events w before_send = [Handled Vocab p r, Advanced Vocab p, SessionDel Vocab p]
             \<and> handle_vocab_reply e p r sv w
                 = start_vocab_session e p sv (snd (send_whatsapp_message e p msg before_send)))"
    if h: "vocab_sessions w p = Some vs \<and> v_attempt vs = 2
        \<and> evaluate_answer e r (ChineseExplaination (last_vocab vs)) = Inr False
        \<and> give_vocab_hint_or_explanation e (last_vocab vs) r 2 = Inr msg
        \<and> get_row_index_by_phone (user_sheet w) p = Inr i"
  proof -
    from h have att: "v_attempt vs \<noteq> 1" by simp
    have "cursor_advanced Vocab p (user_sheet w) (user_sheet (snd (handle_vocab_reply e p r sv w)))"
      using vocab_second_incorrect_completes[of w p vs e r msg i sv, THEN completion_effect_final] h att
      by blast
    moreover have "take 4 (new_events w (snd (handle_vocab_reply e p r sv w)))
           = [Handled Vocab p r, Advanced Vocab p, SessionDel Vocab p,
              Sent p msg (transport e (length (trace w) + 3) p msg = Responded 200)]"
      using vocab_exhaustion_order[of w p vs e r msg i sv] h att by (simp add: ok numeral_3_eq_3)
    moreover note vocab_exhaustion_state[of w p vs e r msg i sv]
    ultimately show ?thesis using h att by blast
  qed
  have b: "take 4 (new_events w (snd (handle_vocab_reply e p r sv w)))
             = [Handled Vocab p r, Sent p msg (transport e (length (trace w) + 1) p msg = Responded 200),
                Advanced Vocab p, SessionDel Vocab p]
        \<and> cursor_advanced Vocab p (user_sheet w) (user_sheet (snd (handle_vocab_reply e p r sv w)))
        \<and> (\<exists>after_delete.
               vocab_sessions after_delete p = None
             \<and> vocab_sessions after_delete = (vocab_sessions w)(p := None)
             \<and> cursor_advanced Vocab p (user_sheet w) (user_sheet after_delete)
             \<and> new_events w after_delete
                 = [Handled Vocab p r, Sent p msg (transport e (length (trace w) + 1) p msg = Responded 200),
                    Advanced Vocab p, SessionDel Vocab p]
             \<and> handle_vocab_reply e p r sv w = start_vocab_session e p sv after_delete)"
    if h: "vocab_sessions w p = Some vs
        \<and> evaluate_answer e r (ChineseExplaination (last_vocab vs)) = Inr True
        \<and> give_vocab_correct_reply e (last_vocab vs) = Inr msg
        \<and> get_row_index_by_phone (user_sheet w) p = Inr i"
  proof -
    have "cursor_advanced Vocab p (user_sheet w) (user_sheet (snd (handle_vocab_reply e p r sv w)))"
      using vocab_correct_completes[of w p vs e r msg i sv, THEN completion_effect_final] h by blast
    moreover have "take 4 (new_events w (snd (handle_vocab_reply e p r sv w)))
           = [Handled Vocab p r, Sent p msg (transport e (length (trace w) + 1) p msg = Responded 200),
              Advanced Vocab p, SessionDel Vocab p]"
      using vocab_correct_order[of w p vs e r msg i sv] h by (simp add: ok)
    moreover have "\<exists>after_delete.
               vocab_sessions after_delete p = None
             \<and> vocab_sessions after_delete = (vocab_sessions w)(p := None)
             \<and> cursor_advanced Vocab p (user_sheet w) (user_sheet after_delete)
             \<and> new_events w after_delete
                 = [Handled Vocab p r, Sent p msg (transport e (length (trace w) + 1) p msg = Responded 200),
                    Advanced Vocab p, SessionDel Vocab p]
             \<and> handle_vocab_reply e p r sv w = start_vocab_session e p sv after_delete"
      using vocab_correct_state[of w p vs e r msg i sv] h by (simp add: ok)
    ultimately show ?thesis by blast
  qed
  have c: "fst (send_whatsapp_message e p m w) = Inr (transport e (length (trace w)) p m = Responded 200)
   \<and> user_sheet (snd (send_whatsapp_message e p m w)) = user_sheet w
   \<and> vocab_sessions (snd (send_whatsapp_message e p m w)) = vocab_sessions w
   \<and> reading_sessions (snd (send_whatsapp_message e p m w)) = reading_sessions w
   \<and> open_reading_sessions (snd (send_whatsapp_message e p m w)) = open_reading_sessions w"
    by (simp add: send_whatsapp_message_eq ok)
  from a b c show ?thesis by blast
qed

text \<open>
  A transport that raises, one that answers 500 and one that answers 200; and the exhaustion
  path under the transport that raises: the explanation is recorded as not delivered, it is
  sent from a world whose vocabulary dictionary has no entry for the student, and the cursor
  has moved from 0 to 1.
\<close>

theorem failed_send_is_false_and_keeps_progress_witness:
  "fst (send_whatsapp_message (demo_env False True True TransportRaised) 85291234567 ''hello'' world0) = Inr False
   \<and> fst (send_whatsapp_message (demo_env False True True (Responded 500)) 85291234567 ''hello'' world0) = Inr False
   \<and> fst (send_whatsapp_message (demo_env False True True (Responded 200)) 85291234567 ''hello'' world0) = Inr True
   \<and> vocab_sessions (vocab_world 2) 85291234567 = Some \<lparr>v_attempt = 2, last_vocab = word1\<rparr>
   \<and> take 4 (new_events (vocab_world 2)
        (snd (handle_vocab_reply (demo_env False True True TransportRaised) 85291234567 ''weak''
               [word1, word2] (vocab_world 2))))
        = [Handled Vocab 85291234567 ''weak'', Advanced Vocab 85291234567, SessionDel Vocab 85291234567,
           Sent 85291234567 ''ok'' False]
   \<and> cursor_advanced Vocab 85291234567 [amy]
        (user_sheet (snd (handle_vocab_reply (demo_env False True True TransportRaised) 85291234567 ''weak''
               [word1, word2] (vocab_world 2))))
   \<and> user_sheet (snd (handle_vocab_reply (demo_env False True True TransportRaised) 85291234567 ''weak''
               [word1, word2] (vocab_world 2))) = [amy\<lparr>current_vocab_number := 1\<rparr>]
   \<and> take 4 (new_events (vocab_world 1)
        (snd (handle_vocab_reply (demo_env True True True TransportRaised) 85291234567 ''tough''
               [word1, word2] (vocab_world 1))))
        = [Handled Vocab 85291234567 ''tough'', Sent 85291234567 ''ok'' False,
           Advanced Vocab 85291234567, SessionDel Vocab 85291234567]
   \<and> (\<exists>before_send.
         vocab_sessions before_send 85291234567 = None
       \<and> cursor_advanced Vocab 85291234567 [amy] (user_sheet before_send)
       \<and> handle_vocab_reply (demo_env False True True TransportRaised) 85291234567 ''weak''
             [word1, word2] (vocab_world 2)
           = start_vocab_session (demo_env False True True TransportRaised) 85291234567 [word1, word2]
               (snd (send_whatsapp_message (demo_env False True True TransportRaised) 85291234567 ''ok''
                      before_send)))"
proof -
  let ?e = "demo_env False True True TransportRaised"
  let ?vs = "\<lparr>v_attempt = 2, last_vocab = word1\<rparr>"
  have h: "vocab_sessions (vocab_world 2) 85291234567 = Some ?vs \<and> v_attempt ?vs = 2
        \<and> evaluate_answer ?e ''weak'' (ChineseExplaination (last_vocab ?vs)) = Inr False
        \<and> give_vocab_hint_or_explanation ?e (last_vocab ?vs) ''weak'' 2 = Inr ''ok''
        \<and> get_row_index_by_phone (user_sheet (vocab_world 2)) 85291234567 = Inr 2"
    by (simp add: fixture_defs more_llm_defs more_sheet_defs)
  note T = failed_send_is_false_and_keeps_progress
  have t: "transport ?e n p m = TransportRaised" for n p m by (simp add: fixture_defs)
  have s1: "fst (send_whatsapp_message ?e 85291234567 ''hello'' world0) = Inr False"
    using T[of ?e 85291234567 "''hello''" world0, THEN conjunct1] by (simp add: t)
  have s2: "fst (send_whatsapp_message (demo_env False True True (Responded 500)) 85291234567 ''hello'' world0) = Inr False"
    using T[of "demo_env False True True (Responded 500)" 85291234567 "''hello''" world0, THEN conjunct1]
    by (simp add: fixture_defs)
  have s3: "fst (send_whatsapp_message (demo_env False True True (Responded 200)) 85291234567 ''hello'' world0) = Inr True"
    using T[of "demo_env False True True (Responded 200)" 85291234567 "''hello''" world0, THEN conjunct1]
    by (simp add: fixture_defs)
  have sheet: "user_sheet (vocab_world 2) = [amy]" by (simp add: fixture_defs)
  have final: "user_sheet (snd (handle_vocab_reply ?e 85291234567 ''weak'' [word1, word2] (vocab_world 2)))
       = [amy\<lparr>current_vocab_number := 1\<rparr>]"
    by (simp add: run_defs fixture_defs more_llm_defs more_sheet_defs)
  note X = T[where w = "vocab_world 2" and e = ?e and p = 85291234567 and vs = ?vs and r = "''weak''"
          and msg = "''ok''" and i = 2 and sv = "[word1, word2]",
        THEN conjunct2, THEN conjunct2, THEN conjunct2, THEN conjunct2, THEN conjunct2, THEN conjunct1,
        THEN mp, OF h]
  from X[THEN conjunct1] X[THEN conjunct2, THEN conjunct1]
  have x: "take 4 (new_events (vocab_world 2)
        (snd (handle_vocab_reply ?e 85291234567 ''weak'' [word1, word2] (vocab_world 2))))
        = [Handled Vocab 85291234567 ''weak'', Advanced Vocab 85291234567, SessionDel Vocab 85291234567,
           Sent 85291234567 ''ok'' False]
     \<and> cursor_advanced Vocab 85291234567 [amy]
        (user_sheet (snd (handle_vocab_reply ?e 85291234567 ''weak'' [word1, word2] (vocab_world 2))))"
    by (simp add: t sheet)
  let ?e1 = "demo_env True True True TransportRaised"
  let ?v1 = "\<lparr>v_attempt = 1, last_vocab = word1\<rparr>"
  have h1: "vocab_sessions (vocab_world 1) 85291234567 = Some ?v1
        \<and> evaluate_answer ?e1 ''tough'' (ChineseExplaination (last_vocab ?v1)) = Inr True
        \<and> give_vocab_correct_reply ?e1 (last_vocab ?v1) = Inr ''ok''
        \<and> get_row_index_by_phone (user_sheet (vocab_world 1)) 85291234567 = Inr 2"
    by (simp add: fixture_defs more_llm_defs more_sheet_defs)
  have t1: "transport ?e1 n p m = TransportRaised" for n p m by (simp add: fixture_defs)
  note Y = T[where w = "vocab_world 1" and e = ?e1 and p = 85291234567 and vs = ?v1 and r = "''tough''"
          and msg = "''ok''" and i = 2 and sv = "[word1, word2]",
        THEN conjunct2, THEN conjunct2, THEN conjunct2, THEN conjunct2, THEN conjunct2, THEN conjunct2,
        THEN mp, OF h1]
  from Y[THEN conjunct1]
  have y: "take 4 (new_events (vocab_world 1)
        (snd (handle_vocab_reply ?e1 85291234567 ''tough'' [word1, word2] (vocab_world 1))))
        = [Handled Vocab 85291234567 ''tough'', Sent 85291234567 ''ok'' False,
           Advanced Vocab 85291234567, SessionDel Vocab 85291234567]"
    by (simp add: t1)
  have z: "\<exists>before_send.
         vocab_sessions before_send 85291234567 = None
       \<and> cursor_advanced Vocab 85291234567 [amy] (user_sheet before_send)
       \<and> handle_vocab_reply ?e 85291234567 ''weak'' [word1, word2] (vocab_world 2)
           = start_vocab_session ?e 85291234567 [word1, word2]
               (snd (send_whatsapp_message ?e 85291234567 ''ok'' before_send))"
    using X[THEN conjunct2, THEN conjunct2] unfolding sheet by blast
  from x y z s1 s2 s3 h final show ?thesis by blast
qed

section \<open>The dispatcher\<close>

lemma quiet_bind:
  assumes "quiet m" "\<And>x. quiet (k x)"
  shows "quiet (io_bind m k)"
  unfolding quiet_def
proof
  fix w
  obtain r w1 where mw: "m w = (r, w1)" by (cases "m w")
  from assms(1) obtain evs1 where e1: "trace w1 = trace w @ evs1" "filter is_handled evs1 = []"
    unfolding quiet_def using mw by (metis snd_conv)
  show "\<exists>evs. trace (snd (io_bind m k w)) = trace w @ evs \<and> filter is_handled evs = []"
  proof (cases r)
    case (Inl err)
    with mw e1 show ?thesis by (simp add: io_bind_def)
  next
    case (Inr x)
    from assms(2)[of x] obtain evs2 where e2: "trace (snd (k x w1)) = trace w1 @ evs2" "filter is_handled evs2 = []"
      unfolding quiet_def by blast
    have "trace (snd (io_bind m k w)) = trace w @ (evs1 @ evs2)"
      using Inr mw e1 e2 by (simp add: io_bind_def)
    moreover have "filter is_handled (evs1 @ evs2) = []" using e1 e2 by simp
    ultimately show ?thesis by blast
  qed
qed

lemma quiet_seq: "quiet m \<Longrightarrow> quiet k \<Longrightarrow> quiet (io_seq m k)"
  unfolding io_seq_def by (rule quiet_bind)

lemma quiet_same:
  assumes "\<And>w. trace (snd (m w)) = trace w"
  shows "quiet m"
  unfolding quiet_def using assms by simp

lemma quiet_one:
  assumes "\<And>w. trace (snd (m w)) = trace w \<or> (\<exists>ev. trace (snd (m w)) = trace w @ [ev] \<and> \<not> is_handled ev)"
  shows "quiet m"
  unfolding quiet_def
proof
  fix w
  from assms[of w] show "\<exists>evs. trace (snd (m w)) = trace w @ evs \<and> filter is_handled evs = []"
  proof
    assume "trace (snd (m w)) = trace w"
    then show ?thesis by simp
  next
    assume "\<exists>ev. trace (snd (m w)) = trace w @ [ev] \<and> \<not> is_handled ev"
    then obtain ev where "trace (snd (m w)) = trace w @ [ev]" "\<not> is_handled ev" by blast
    then have "trace (snd (m w)) = trace w @ [ev] \<and> filter is_handled [ev] = []" by simp
    then show ?thesis by blast
  qed
qed

lemma quiet_prims:
  "quiet (io_return x)"
  "quiet (io_lift r)"
  "quiet (from_sheet f)"
  "quiet (\<lambda>w. (Inr (g w), w))"
  "quiet (to_sheet t p h)"
  "quiet (send_whatsapp_message e p msg)"
  "quiet (put_vocab_session p vs)"
  "quiet (del_vocab_session p)"
  "quiet (set_vocab_attempt p a)"
  "quiet (put_reading_session p rs)"
  "quiet (del_reading_session p)"
  "quiet (modify_reading_session p u)"
  "quiet (put_open_reading_session p os)"
  "quiet (del_open_reading_session p)"
  "quiet (advance_vocab_index p)"
  "quiet (advance_question_progress p)"
  "quiet (advance_open_question_progress p)"
  "quiet (emit (Started t p))"
  by (rule quiet_one; simp add: prim_defs put_vocab_session_def del_vocab_session_def set_vocab_attempt_def
        put_reading_session_def del_reading_session_def modify_reading_session_def
        put_open_reading_session_def del_open_reading_session_def advance_vocab_index_def
        advance_question_progress_def advance_open_question_progress_def
      split: sum.splits option.splits)+

lemma quiet_start_vocab_session: "quiet (start_vocab_session e p sv)"
  unfolding start_vocab_session_def
  by (auto intro!: quiet_bind quiet_seq quiet_prims split: option.splits)

lemma quiet_start_reading_session: "quiet (start_reading_session e p sc pl)"
  unfolding start_reading_session_def Let_def
  by (auto intro!: quiet_bind quiet_seq quiet_prims split: option.splits)

lemma quiet_start_open_reading_session: "quiet (start_open_reading_session e p so)"
  unfolding start_open_reading_session_def
  by (auto intro!: quiet_bind quiet_seq quiet_prims split: option.splits)

lemma handled_once:
  assumes "quiet k"
  shows "filter is_handled (new_events w (snd (io_seq (emit (Handled t p r)) k w))) = [Handled t p r]"
proof -
  from assms obtain evs where
    "trace (snd (k (w\<lparr>trace := trace w @ [Handled t p r]\<rparr>))) = trace (w\<lparr>trace := trace w @ [Handled t p r]\<rparr>) @ evs"
    "filter is_handled evs = []"
    unfolding quiet_def by blast
  then show ?thesis
    by (simp add: io_seq_def io_bind_def emit_def new_events_def)
qed

lemma quiet_new_events:
  assumes "quiet m"
  shows "filter is_handled (new_events w (snd (m w))) = []"
proof -
  from assms obtain evs where "trace (snd (m w)) = trace w @ evs" "filter is_handled evs = []"
    unfolding quiet_def by blast
  then show ?thesis by (simp add: new_events_def)
qed

lemma handle_vocab_reply_handled:
  "filter is_handled (new_events w (snd (handle_vocab_reply e p r sv w))) = [Handled Vocab p r]"
  unfolding handle_vocab_reply_def Let_def
  by (rule handled_once)
     (auto intro!: quiet_bind quiet_seq quiet_prims quiet_start_vocab_session split: option.splits)

lemma handle_reading_reply_handled:
  "filter is_handled (new_events w (snd (handle_reading_reply e p r sc w))) = [Handled Reading p r]"
  unfolding handle_reading_reply_def Let_def
  by (rule handled_once)
     (auto intro!: quiet_bind quiet_seq quiet_prims quiet_start_reading_session split: option.splits)

lemma handle_open_reading_reply_handled:
  "filter is_handled (new_events w (snd (handle_open_reading_reply e p r so w))) = [Handled OpenReading p r]"
  unfolding handle_open_reading_reply_def Let_def
  by (rule handled_once)
     (auto intro!: quiet_bind quiet_seq quiet_prims quiet_start_open_reading_session split: option.splits)

lemma trigger_strip:
  "py_in ''start'' (py_lower (py_strip raw)) = py_in ''start'' (py_lower raw)"
  "py_in ''vocab'' (py_lower (py_strip raw)) = py_in ''vocab'' (py_lower raw)"
  "py_in ''reading'' (py_lower (py_strip raw)) = py_in ''reading'' (py_lower raw)"
  "py_in ''warm up'' (py_lower (py_strip raw)) = py_in ''warm up'' (py_lower raw)"
  by (rule py_in_lower_strip, simp add: is_space_def)+

lemma receive_message_default:
  assumes "get_student_name_by_phone (user_sheet w) p = Inr name"
    and "no_trigger raw"
    and "open_reading_sessions w p = None" and "reading_sessions w p = None"
  shows "receive_message e p raw w = spec_default_flow e p (py_lower (py_strip raw)) (last_prompt w p) w"
  using assms
  by (simp add: receive_message_def no_trigger_def trigger_strip spec_default_flow_def last_prompt_def
        io_defs Let_def domIff send_whatsapp_message_eq
      split: sum.splits bool.splits)

lemma receive_message_open:
  assumes "get_student_name_by_phone (user_sheet w) p = Inr name"
    and "no_trigger raw"
    and "open_reading_sessions w p = Some os"
  shows "receive_message e p raw w = handle_open_reading_reply e p (py_lower (py_strip raw)) (open_reading_sheet e) w"
  using assms
  by (simp add: receive_message_def no_trigger_def trigger_strip io_bind_def from_sheet_def Let_def domIff)

lemma receive_message_reading:
  assumes "get_student_name_by_phone (user_sheet w) p = Inr name"
    and "no_trigger raw"
    and "open_reading_sessions w p = None" and "reading_sessions w p = Some rs"
  shows "receive_message e p raw w = handle_reading_reply e p (py_lower (py_strip raw)) (close_reading_sheet e) w"
  using assms
  by (simp add: receive_message_def no_trigger_def trigger_strip io_bind_def from_sheet_def Let_def domIff)

lemma receive_message_command_quiet:
  assumes "\<not> no_trigger raw"
  shows "filter is_handled (new_events w (snd (receive_message e p raw w))) = []"
proof -
  have "quiet (receive_message e p raw)"
    using assms unfolding receive_message_def Let_def no_trigger_def trigger_strip
    by (auto intro!: quiet_bind quiet_seq quiet_prims quiet_start_vocab_session
          quiet_start_reading_session quiet_start_open_reading_session)
  then show ?thesis by (rule quiet_new_events)
qed


text \<open>
  C1: for a student found in the user sheet and a message that contains none of the four
  command words, the dispatcher is the open-reading reply handler whenever an open-reading
  session exists for the student, also when a closed-reading session exists as well, and the
  only reply handler entered is the open-reading one; otherwise, when a closed-reading
  session exists, it is the closed-reading reply handler; otherwise it is the vocabulary
  default flow of the specification (answer-attempt check, then relevance check, then
  off-topic redirect) against the last text composed for the student. The handler receives
  the stripped, lower-cased message.
\<close>

theorem dispatcher_precedence:
  assumes "get_student_name_by_phone (user_sheet w) p = Inr name"
    and "no_trigger raw"
  shows "(open_reading_sessions w p = Some os \<longrightarrow>
            receive_message e p raw w
              = handle_open_reading_reply e p (py_lower (py_strip raw)) (open_reading_sheet e) w
          \<and> filter is_handled (new_events w (snd (receive_message e p raw w)))
              = [Handled OpenReading p (py_lower (py_strip raw))])
       \<and> (open_reading_sessions w p = None \<and> reading_sessions w p = Some rs \<longrightarrow>
            receive_message e p raw w
              = handle_reading_reply e p (py_lower (py_strip raw)) (close_reading_sheet e) w
          \<and> filter is_handled (new_events w (snd (receive_message e p raw w)))
              = [Handled Reading p (py_lower (py_strip raw))])
       \<and> (open_reading_sessions w p = None \<and> reading_sessions w p = None \<longrightarrow>
            receive_message e p raw w
              = spec_default_flow e p (py_lower (py_strip raw)) (last_prompt w p) w)"
  using receive_message_open[OF assms, of os e] receive_message_reading[OF assms, of rs e]
    receive_message_default[OF assms, of e]
  by (simp add: handle_open_reading_reply_handled handle_reading_reply_handled)

text \<open>
  A student with both an open-reading and a closed-reading session, one with a closed-reading
  session only, and one with no session.
\<close>

theorem dispatcher_precedence_witness:
  "get_student_name_by_phone (user_sheet both_world) 85291234567 = Inr ''Amy''
   \<and> no_trigger '' He was SLEEPY ''
   \<and> open_reading_sessions both_world 85291234567 = Some \<lparr>o_question = ''Why might Tom leave?''\<rparr>
   \<and> reading_sessions both_world 85291234567 \<noteq> None
   \<and> filter is_handled (new_events both_world
        (snd (receive_message (demo_env True True True (Responded 200)) 85291234567 '' He was SLEEPY '' both_world)))
      = [Handled OpenReading 85291234567 ''he was sleepy'']
   \<and> open_reading_sessions (reading_world 1 []) 85291234567 = None
   \<and> filter is_handled (new_events (reading_world 1 [])
        (snd (receive_message (demo_env True True True (Responded 200)) 85291234567 '' He was SLEEPY '' (reading_world 1 []))))
      = [Handled Reading 85291234567 ''he was sleepy'']
   \<and> receive_message (demo_env True False False (Responded 200)) 85291234567 '' He was SLEEPY '' world0
      = spec_default_flow (demo_env True False False (Responded 200)) 85291234567 ''he was sleepy'' [] world0"
proof -
  let ?P = "85291234567 :: int"
  let ?raw = "'' He was SLEEPY ''"
  have m: "py_lower (py_strip ?raw) = ''he was sleepy''"
    by (simp add: py_lower_def py_strip_def char_lower_def is_space_def)
  have nt: "no_trigger ?raw"
    by (simp add: no_trigger_def py_lower_def char_lower_def)
  have r1: "get_student_name_by_phone (user_sheet both_world) ?P = Inr ''Amy''"
    and r2: "get_student_name_by_phone (user_sheet (reading_world 1 [])) ?P = Inr ''Amy''"
    and r3: "get_student_name_by_phone (user_sheet world0) ?P = Inr ''Amy''"
    by (simp_all add: fixture_defs both_world_def more_sheet_defs)
  have o1: "open_reading_sessions both_world ?P = Some \<lparr>o_question = ''Why might Tom leave?''\<rparr>"
    and c1: "reading_sessions both_world ?P \<noteq> None"
    by (simp_all add: fixture_defs both_world_def)
  have o2: "open_reading_sessions (reading_world 1 []) ?P = None
      \<and> reading_sessions (reading_world 1 []) ?P
          = Some \<lparr>r_passage = ''Tom went home early.'', r_question = ''Where did Tom go?'',
                   r_attempt = 1, r_mode = [], last_user_answer = []\<rparr>"
    by (simp add: fixture_defs)
  have o3: "open_reading_sessions world0 ?P = None \<and> reading_sessions world0 ?P = None"
    and lp: "last_prompt world0 ?P = []"
    by (simp_all add: fixture_defs last_prompt_def)
  note a = dispatcher_precedence[OF r1 nt, THEN conjunct1, THEN mp, OF o1, THEN conjunct2]
  note b = dispatcher_precedence[OF r2 nt, THEN conjunct2, THEN conjunct1, THEN mp, OF o2, THEN conjunct2]
  note c = dispatcher_precedence[OF r3 nt, THEN conjunct2, THEN conjunct2, THEN mp, OF o3]
  from a b c r1 nt o1 c1 o2 show ?thesis by (simp add: m lp)
qed


text \<open>
  C9: the four command words are tested first, in the order start, vocab, reading, warm up,
  by containment in the lower-cased message. For a student found in the user sheet the first
  command word contained decides: a greeting is sent, or the vocabulary, closed-reading or
  open-reading start function runs (overwriting a session that awaits a reply). And for any
  message containing a command word no reply handler is entered, whatever sessions exist.
\<close>

theorem commands_precede_sessions:
  "(get_student_name_by_phone (user_sheet w) p = Inr name \<and> py_in ''start'' (py_lower raw)
       \<and> greet_student e name = Inr greet
     \<longrightarrow> fst (receive_message e p raw w) = Inr ()
       \<and> new_events w (snd (receive_message e p raw w)) = [Sent p greet (post_ok e (length (trace w)) p greet)])
 \<and> (get_student_name_by_phone (user_sheet w) p = Inr name
       \<and> \<not> py_in ''start'' (py_lower raw) \<and> py_in ''vocab'' (py_lower raw)
     \<longrightarrow> receive_message e p raw w = start_vocab_session e p (vocab_sheet e) w)
 \<and> (get_student_name_by_phone (user_sheet w) p = Inr name
       \<and> \<not> py_in ''start'' (py_lower raw) \<and> \<not> py_in ''vocab'' (py_lower raw)
       \<and> py_in ''reading'' (py_lower raw)
     \<longrightarrow> receive_message e p raw w = start_reading_session e p (close_reading_sheet e) None w)
 \<and> (get_student_name_by_phone (user_sheet w) p = Inr name
       \<and> \<not> py_in ''start'' (py_lower raw) \<and> \<not> py_in ''vocab'' (py_lower raw)
       \<and> \<not> py_in ''reading'' (py_lower raw) \<and> py_in ''warm up'' (py_lower raw)
     \<longrightarrow> receive_message e p raw w = start_open_reading_session e p (open_reading_sheet e) w)
 \<and> (py_in ''start'' (py_lower raw) \<or> py_in ''vocab'' (py_lower raw)
       \<or> py_in ''reading'' (py_lower raw) \<or> py_in ''warm up'' (py_lower raw)
     \<longrightarrow> filter is_handled (new_events w (snd (receive_message e p raw w))) = [])"
proof -
  have "filter is_handled (new_events w (snd (receive_message e p raw w))) = []"
    if "py_in ''start'' (py_lower raw) \<or> py_in ''vocab'' (py_lower raw)
       \<or> py_in ''reading'' (py_lower raw) \<or> py_in ''warm up'' (py_lower raw)"
    using that by (intro receive_message_command_quiet) (auto simp: no_trigger_def)
  then show ?thesis
    by (simp add: receive_message_def trigger_strip io_defs Let_def send_whatsapp_message_eq new_events_def)
qed

text \<open>
  An answer sentence that contains the word \<open>READING\<close>, sent while a closed-reading session
  waits at attempt 2, restarts the closed-reading track (attempt 1 again) and reaches no reply
  handler; a message containing \<open>START\<close> during an open-reading session is answered with the
  greeting only.
\<close>

theorem commands_precede_sessions_witness:
  "py_in ''reading'' (py_lower ''I enjoy READING novels at home'')
   \<and> reading_sessions (reading_world 2 []) 85291234567 \<noteq> None
   \<and> receive_message (demo_env True True True (Responded 200)) 85291234567 ''I enjoy READING novels at home'' (reading_world 2 [])
      = start_reading_session (demo_env True True True (Responded 200)) 85291234567 [question1, question2] None (reading_world 2 [])
   \<and> filter is_handled (new_events (reading_world 2 [])
        (snd (receive_message (demo_env True True True (Responded 200)) 85291234567 ''I enjoy READING novels at home'' (reading_world 2 []))))
      = []
   \<and> map_option r_attempt (reading_sessions
        (snd (receive_message (demo_env True True True (Responded 200)) 85291234567 ''I enjoy READING novels at home'' (reading_world 2 [])))
        85291234567) = Some 1
   \<and> py_in ''start'' (py_lower ''Let us START'')
   \<and> new_events open_world
        (snd (receive_message (demo_env True True True (Responded 200)) 85291234567 ''Let us START'' open_world))
      = [Sent 85291234567 ''ok'' True]"
proof -
  let ?P = "85291234567 :: int"
  let ?e = "demo_env True True True (Responded 200)"
  let ?raw = "''I enjoy READING novels at home''"
  have low: "py_lower ?raw = ''i enjoy reading novels at home''"
    by (simp add: py_lower_def char_lower_def)
  have h: "get_student_name_by_phone (user_sheet (reading_world 2 [])) ?P = Inr ''Amy''
       \<and> \<not> py_in ''start'' (py_lower ?raw) \<and> \<not> py_in ''vocab'' (py_lower ?raw)
       \<and> py_in ''reading'' (py_lower ?raw)"
    unfolding low by (simp add: fixture_defs more_sheet_defs)
  have d: "py_in ''start'' (py_lower ?raw) \<or> py_in ''vocab'' (py_lower ?raw)
       \<or> py_in ''reading'' (py_lower ?raw) \<or> py_in ''warm up'' (py_lower ?raw)"
    using h by simp
  have sess: "reading_sessions (reading_world 2 []) ?P \<noteq> None" by (simp add: fixture_defs)
  have sheet: "close_reading_sheet ?e = [question1, question2]" by (simp add: fixture_defs)
  note T = commands_precede_sessions
  note a = T[THEN conjunct2, THEN conjunct2, THEN conjunct1, THEN mp, OF h]
  note b = T[THEN conjunct2, THEN conjunct2, THEN conjunct2, THEN conjunct2, THEN mp, OF d]
  have att: "map_option r_attempt (reading_sessions
        (snd (start_reading_session ?e ?P [question1, question2] None (reading_world 2 []))) ?P) = Some 1"
    by (simp add: run_defs fixture_defs more_llm_defs more_sheet_defs)
  have low2: "py_lower ''Let us START'' = ''let us start''"
    by (simp add: py_lower_def char_lower_def)
  have g: "get_student_name_by_phone (user_sheet open_world) ?P = Inr ''Amy''
       \<and> py_in ''start'' (py_lower ''Let us START'')
       \<and> greet_student ?e ''Amy'' = Inr ''ok''"
    unfolding low2 by (simp add: fixture_defs more_sheet_defs more_llm_defs)
  have ok: "post_ok ?e (length (trace open_world)) ?P ''ok''"
    by (simp add: post_ok_def fixture_defs)
  note c = T[THEN conjunct1, THEN mp, OF g, THEN conjunct2]
  from a[of ?e] b[of "reading_world 2 []" ?e ?P] c h g sess att ok show ?thesis
    by (simp add: sheet)
qed


text \<open>
  C10: \<open>send_whatsapp_message\<close> stores the outgoing text as the student's last sent message
  whatever the transport does, and the default fallback of the dispatcher classifies the
  student's next message against that text.
\<close>

theorem last_sent_is_recorded_before_delivery:
  "last_sent_messages (snd (send_whatsapp_message e0 p prompt w)) p = Some prompt
   \<and> last_prompt (snd (send_whatsapp_message e0 p prompt w)) p = prompt
   \<and> (get_student_name_by_phone (user_sheet w) p = Inr name \<and> no_trigger raw
        \<and> open_reading_sessions w p = None \<and> reading_sessions w p = None
      \<longrightarrow> receive_message e p raw (snd (send_whatsapp_message e0 p prompt w))
            = spec_default_flow e p (py_lower (py_strip raw)) prompt (snd (send_whatsapp_message e0 p prompt w)))"
proof -
  let ?w1 = "snd (send_whatsapp_message e0 p prompt w)"
  have lp: "last_prompt ?w1 p = prompt"
    by (simp add: send_whatsapp_message_eq last_prompt_def)
  have "receive_message e p raw ?w1 = spec_default_flow e p (py_lower (py_strip raw)) prompt ?w1"
    if h: "get_student_name_by_phone (user_sheet w) p = Inr name \<and> no_trigger raw
        \<and> open_reading_sessions w p = None \<and> reading_sessions w p = None"
  proof -
    have "receive_message e p raw ?w1 = spec_default_flow e p (py_lower (py_strip raw)) (last_prompt ?w1 p) ?w1"
      using h by (intro receive_message_default[where name = name]) (simp_all add: send_whatsapp_message_eq)
    then show ?thesis by (simp only: lp)
  qed
  then show ?thesis using lp by (simp add: send_whatsapp_message_eq)
qed


text \<open>
  The transport raises on the prompt, so the prompt is never delivered; the next message is
  nevertheless classified against it.
\<close>

theorem last_sent_is_recorded_before_delivery_witness:
  "fst (send_whatsapp_message (demo_env True True True TransportRaised) 85291234567 ''What does resilient mean?'' world0) = Inr False
   \<and> last_sent_messages (snd (send_whatsapp_message (demo_env True True True TransportRaised) 85291234567
         ''What does resilient mean?'' world0)) 85291234567 = Some ''What does resilient mean?''
   \<and> no_trigger ''Tough''
   \<and> receive_message (demo_env True False False (Responded 200)) 85291234567 ''Tough''
        (snd (send_whatsapp_message (demo_env True True True TransportRaised) 85291234567 ''What does resilient mean?'' world0))
      = spec_default_flow (demo_env True False False (Responded 200)) 85291234567 ''tough'' ''What does resilient mean?''
        (snd (send_whatsapp_message (demo_env True True True TransportRaised) 85291234567 ''What does resilient mean?'' world0))"
proof -
  let ?P = "85291234567 :: int"
  let ?e0 = "demo_env True True True TransportRaised"
  have f: "fst (send_whatsapp_message ?e0 ?P ''What does resilient mean?'' world0) = Inr False"
    by (simp add: send_whatsapp_message_eq post_ok_def fixture_defs)
  have m: "py_lower (py_strip ''Tough'') = ''tough''"
    by (simp add: py_lower_def py_strip_def char_lower_def is_space_def)
  have nt: "no_trigger ''Tough''"
    by (simp add: no_trigger_def py_lower_def char_lower_def)
  have h: "get_student_name_by_phone (user_sheet world0) ?P = Inr ''Amy'' \<and> no_trigger ''Tough''
        \<and> open_reading_sessions world0 ?P = None \<and> reading_sessions world0 ?P = None"
    using nt by (simp add: fixture_defs more_sheet_defs)
  note T = last_sent_is_recorded_before_delivery
  note a = T[THEN conjunct1]
  note b = T[THEN conjunct2, THEN conjunct2, THEN mp, OF h]
  from a[of ?e0 ?P "''What does resilient mean?''" world0]
    b[of "demo_env True False False (Responded 200)" ?e0 "''What does resilient mean?''"] f nt
  show ?thesis by (simp add: m)
qed

section \<open>Starting a track with nothing left\<close>

lemma get_passage_errors:
  "get_passage sheet sc p = Inl err \<Longrightarrow> err = PhoneNotFound p \<or> (\<exists>day. err = NoPassage day)"
  using advance_sheet_cases[of sheet p]
  by (auto simp: get_passage_def with_user_data_def Let_def split: option.splits)



text \<open>
  What each start function does when nothing is left at the student's day and cursor. The
  vocabulary start function, for a student of the user sheet whose vocabulary cursor has
  reached the number of that day's items, creates no session, sends exactly one message, the
  completion text, and ends normally. The closed-reading and the open-reading start function
  have no such branch: the look-up raises, nothing is sent and no session is created.
\<close>

lemma start_functions_with_nothing_left:
  "(get_row_index_by_phone (user_sheet w) p = Inr i
      \<and> int (length (filter (\<lambda>v. Day v = day_of_training (user_sheet w ! (i - 2))) sv))
           \<le> current_vocab_number (user_sheet w ! (i - 2))
    \<longrightarrow> fst (start_vocab_session e p sv w) = Inr ()
      \<and> new_events w (snd (start_vocab_session e p sv w))
           = [Started Vocab p, Sent p vocab_done_text (post_ok e (Suc (length (trace w))) p vocab_done_text)]
      \<and> vocab_sessions (snd (start_vocab_session e p sv w)) = vocab_sessions w)
 \<and> (get_current_question (user_sheet w) sc p = Inl CannotFindQuestion
    \<longrightarrow> (fst (start_reading_session e p sc pl w) = Inl CannotFindQuestion
          \<or> (\<exists>day. fst (start_reading_session e p sc pl w) = Inl (NoPassage day)))
      \<and> new_events w (snd (start_reading_session e p sc pl w)) = [Started Reading p]
      \<and> reading_sessions (snd (start_reading_session e p sc pl w)) = reading_sessions w)
 \<and> (get_open_question (user_sheet w) so p = Inl CannotFindOpenQuestion
    \<longrightarrow> fst (start_open_reading_session e p so w) = Inl CannotFindOpenQuestion
      \<and> new_events w (snd (start_open_reading_session e p so w)) = [Started OpenReading p]
      \<and> open_reading_sessions (snd (start_open_reading_session e p so w)) = open_reading_sessions w)"
proof (intro conjI impI)
  assume h: "get_row_index_by_phone (user_sheet w) p = Inr i
      \<and> int (length (filter (\<lambda>v. Day v = day_of_training (user_sheet w ! (i - 2))) sv))
           \<le> current_vocab_number (user_sheet w ! (i - 2))"
  then have none: "get_current_vocab_row (user_sheet w) sv p = Inr None"
    by (simp add: get_current_vocab_row_def with_user_data_def Let_def)
  show "fst (start_vocab_session e p sv w) = Inr ()"
    and "new_events w (snd (start_vocab_session e p sv w))
           = [Started Vocab p, Sent p vocab_done_text (post_ok e (Suc (length (trace w))) p vocab_done_text)]"
    and "vocab_sessions (snd (start_vocab_session e p sv w)) = vocab_sessions w"
    using none
    by (simp_all add: start_vocab_session_def io_defs send_whatsapp_message_eq new_events_def)
next
  assume q: "get_current_question (user_sheet w) sc p = Inl CannotFindQuestion"
  show "fst (start_reading_session e p sc pl w) = Inl CannotFindQuestion
          \<or> (\<exists>day. fst (start_reading_session e p sc pl w) = Inl (NoPassage day))"
  proof (cases "get_passage (user_sheet w) sc p")
    case (Inl err)
    have "err \<noteq> PhoneNotFound p"
    proof
      assume "err = PhoneNotFound p"
      with Inl have "get_row_index_by_phone (user_sheet w) p = Inl (PhoneNotFound p)"
        using advance_sheet_cases[of "user_sheet w" p]
        by (auto simp: get_passage_def with_user_data_def Let_def split: option.splits)
      with q show False by (simp add: get_current_question_def with_user_data_def)
    qed
    with get_passage_errors[OF Inl] obtain day where "err = NoPassage day" by blast
    with Inl show ?thesis
      by (simp add: start_reading_session_def io_defs)
  next
    case (Inr pa)
    with q show ?thesis by (simp add: start_reading_session_def io_defs)
  qed
  show "new_events w (snd (start_reading_session e p sc pl w)) = [Started Reading p]"
    and "reading_sessions (snd (start_reading_session e p sc pl w)) = reading_sessions w"
    using q
    by (simp_all add: start_reading_session_def io_defs new_events_def split: sum.splits)
next
  assume q: "get_open_question (user_sheet w) so p = Inl CannotFindOpenQuestion"
  then show "fst (start_open_reading_session e p so w) = Inl CannotFindOpenQuestion"
    and "new_events w (snd (start_open_reading_session e p so w)) = [Started OpenReading p]"
    and "open_reading_sessions (snd (start_open_reading_session e p so w)) = open_reading_sessions w"
    by (simp_all add: start_open_reading_session_def io_defs new_events_def)
qed


text \<open>
  C3: starting a track when no content item remains for the student's day creates no
  session, sends exactly one completion notification and lets no exception reach the caller.
  The vocabulary track does so; the two reading tracks do not. On the fixtures: the student
  who has finished everything gets the completion text from the vocabulary start function,
  while the closed-reading and the open-reading start function raise the look-up error and
  send nothing. The same happens in ordinary use on the last closed question of the day: the
  handler answers the reflection, increments the cursor, deletes the session, enters the
  chained start and ends in the look-up error, with no completion notification.
\<close>

theorem reading_tracks_raise_when_nothing_is_left:
  "get_current_vocab_row (user_sheet exhausted_world) [word1, word2] 85291234567 = Inr None
   \<and> fst (start_vocab_session (demo_env True True True (Responded 200)) 85291234567
            [word1, word2] exhausted_world) = Inr ()
   \<and> new_events exhausted_world (snd (start_vocab_session (demo_env True True True (Responded 200))
            85291234567 [word1, word2] exhausted_world))
      = [Started Vocab 85291234567, Sent 85291234567 vocab_done_text True]
   \<and> get_current_question (user_sheet exhausted_world) [question1, question2] 85291234567
      = Inl CannotFindQuestion
   \<and> fst (start_reading_session (demo_env True True True (Responded 200)) 85291234567
            [question1, question2] None exhausted_world) = Inl CannotFindQuestion
   \<and> new_events exhausted_world (snd (start_reading_session (demo_env True True True (Responded 200))
            85291234567 [question1, question2] None exhausted_world))
      = [Started Reading 85291234567]
   \<and> get_open_question (user_sheet exhausted_world) [open1] 85291234567 = Inl CannotFindOpenQuestion
   \<and> fst (start_open_reading_session (demo_env True True True (Responded 200)) 85291234567
            [open1] exhausted_world) = Inl CannotFindOpenQuestion
   \<and> new_events exhausted_world (snd (start_open_reading_session (demo_env True True True (Responded 200))
            85291234567 [open1] exhausted_world))
      = [Started OpenReading 85291234567]
   \<and> fst (handle_reading_reply (demo_env True True True (Responded 200)) 85291234567
            ''the text says early'' [question1, question2] last_question_world) = Inl CannotFindQuestion
   \<and> new_events last_question_world (snd (handle_reading_reply (demo_env True True True (Responded 200))
            85291234567 ''the text says early'' [question1, question2] last_question_world))
      = [Handled Reading 85291234567 ''the text says early'', Sent 85291234567 ''ok'' True,
         Advanced Reading 85291234567, SessionDel Reading 85291234567, Started Reading 85291234567]
   \<and> user_sheet (snd (handle_reading_reply (demo_env True True True (Responded 200)) 85291234567
            ''the text says early'' [question1, question2] last_question_world))
      = [amy\<lparr>current_question_number := 3\<rparr>]
   \<and> reading_sessions (snd (handle_reading_reply (demo_env True True True (Responded 200)) 85291234567
            ''the text says early'' [question1, question2] last_question_world)) 85291234567 = None"
  by (simp add: run_defs fixture_defs exhausted_world_def last_question_world_def more_llm_defs
        more_sheet_defs new_events_def)

section \<open>The attempt guard\<close>

text \<open>
  C4, as the claim states it, fails: on a vocabulary session whose attempt counter is 3 and
  an answer judged incorrect, the reply handler raises nothing; it sends the explanation,
  advances the cursor and deletes the session, as for attempt 2.
\<close>

theorem vocab_attempt_three_counterexample:
  "map_option v_attempt (vocab_sessions (vocab_world 3) 85291234567) = Some 3
   \<and> evaluate_answer (demo_env False True True (Responded 200)) ''weak'' ''tough'' = Inr False
   \<and> fst (handle_vocab_reply (demo_env False True True (Responded 200)) 85291234567 ''weak''
            [word1, word2] (vocab_world 3)) = Inr ()
   \<and> take 4 (new_events (vocab_world 3)
        (snd (handle_vocab_reply (demo_env False True True (Responded 200)) 85291234567 ''weak''
               [word1, word2] (vocab_world 3))))
      = [Handled Vocab 85291234567 ''weak'', Advanced Vocab 85291234567, SessionDel Vocab 85291234567,
         Sent 85291234567 ''ok'' True]"
  by (simp add: run_defs fixture_defs more_llm_defs more_sheet_defs new_events_def)


lemma stripped_content_error:
  "stripped_content e req = Inl err \<Longrightarrow> err = APIError"
  by (auto simp: stripped_content_def content_def split: llm_response.splits)

lemma no_guard_bind:
  assumes "guard_free (fst (m w))"
    and "\<And>x w'. m w = (Inr x, w') \<Longrightarrow> guard_free (fst (k x w'))"
  shows "guard_free (fst (io_bind m k w))"
proof (cases "m w")
  case (Pair r w')
  show ?thesis
  proof (cases r)
    case (Inl err)
    with Pair assms(1) show ?thesis by (simp add: io_bind_def guard_free_def)
  next
    case (Inr x)
    with Pair assms(2)[of x w'] show ?thesis by (simp add: io_bind_def)
  qed
qed

lemma no_guard_seq:
  assumes "guard_free (fst (m w))"
    and "\<And>x w'. m w = (Inr x, w') \<Longrightarrow> guard_free (fst (k w'))"
  shows "guard_free (fst (io_seq m k w))"
  unfolding io_seq_def using assms by (rule no_guard_bind)

lemma with_user_data_error:
  assumes "with_user_data sheet p k = Inl err"
  shows "err = PhoneNotFound p \<or> (\<exists>row. k row = Inl err)"
  using assms advance_sheet_cases[of sheet p]
  by (auto simp: with_user_data_def)

lemma no_guard_lifts:
  "guard_free (evaluate_answer e u c)"
  "guard_free (give_vocab_correct_reply e row)"
  "guard_free (ask_vocab_meaning_question e row)"
  "guard_free (give_vocab_hint_or_explanation e row u 1)"
  "guard_free (give_vocab_hint_or_explanation e row u 2)"
  by (auto simp: guard_free_def evaluate_answer_def give_vocab_correct_reply_def
        ask_vocab_meaning_question_def give_vocab_hint_or_explanation_def
      split: sum.splits if_splits dest: stripped_content_error)

lemma get_current_vocab_row_no_guard:
  "guard_free (get_current_vocab_row sheet sv p)"
  unfolding guard_free_def
proof
  assume "get_current_vocab_row sheet sv p = Inl AttemptNeither1Nor2"
  from with_user_data_error[OF this[unfolded get_current_vocab_row_def]]
  show False by (auto simp: Let_def split: if_splits)
qed

lemma advance_vocab_index_sheet_no_guard:
  "guard_free (advance_vocab_index_sheet sheet p)"
proof (cases "get_row_index_by_phone sheet p")
  case (Inl err)
  then have "err = PhoneNotFound p" using advance_sheet_cases[of sheet p] by auto
  with Inl show ?thesis by (simp add: advance_sheet_missing(1) guard_free_def)
next
  case (Inr i)
  then show ?thesis by (simp add: update_sheet_bump(1) guard_free_def)
qed

lemma no_guard_prims:
  "guard_free (fst (io_return x w))"
  "guard_free (fst (emit ev w))"
  "guard_free (fst (send_whatsapp_message e p msg w))"
  "guard_free (fst (put_vocab_session p vs w))"
  "guard_free (fst (del_vocab_session p w))"
  "guard_free (fst (set_vocab_attempt p a w))"
  "guard_free (fst (advance_vocab_index p w))"
  "guard_free (fst (from_sheet (\<lambda>sheet_user. get_current_vocab_row sheet_user sv p) w))"
  "guard_free (fst ((\<lambda>w. (Inr (g w), w)) w))"
  "guard_free r \<Longrightarrow> guard_free (fst (io_lift r w))"
  using advance_vocab_index_sheet_no_guard[of "user_sheet w" p]
    get_current_vocab_row_no_guard[of "user_sheet w" sv p]
  by (auto simp: guard_free_def prim_defs put_vocab_session_def del_vocab_session_def
        set_vocab_attempt_def advance_vocab_index_def split: sum.splits option.splits)

lemma start_vocab_session_no_guard:
  "guard_free (fst (start_vocab_session e p sv w))"
  unfolding start_vocab_session_def
  by (auto intro!: no_guard_bind no_guard_seq no_guard_prims no_guard_lifts split: option.splits)

lemma handle_vocab_reply_no_guard:
  "guard_free (fst (handle_vocab_reply e p r sv w))"
  unfolding handle_vocab_reply_def Let_def
  by (auto intro!: no_guard_bind no_guard_seq no_guard_prims no_guard_lifts start_vocab_session_no_guard
      split: option.splits)


text \<open>
  C4 (amended): the invalid-state error belongs to \<open>give_vocab_hint_or_explanation\<close>, which
  raises it exactly when called with an attempt other than 1 and 2. The vocabulary reply
  handler calls it with the literals 1 and 2 only and never raises that error, whatever the
  stored attempt counter: on a session whose counter is outside {1,2} and an answer judged
  incorrect it follows the attempt-2 path: the cursor is incremented in the sheet and the
  student's entry is removed from the vocabulary session dictionary, the explanation is sent
  from that world, and the chained start follows.
\<close>

theorem invalid_attempt_is_refused_by_the_generator_only:
  "(a \<notin> {1, 2} \<longrightarrow> give_vocab_hint_or_explanation e row u a = Inl AttemptNeither1Nor2)
 \<and> (a \<in> {1, 2} \<longrightarrow> give_vocab_hint_or_explanation e row u a \<noteq> Inl AttemptNeither1Nor2)
 \<and> fst (handle_vocab_reply e p r sv w) \<noteq> Inl AttemptNeither1Nor2
 \<and> (vocab_sessions w p = Some vs \<and> v_attempt vs \<notin> {1, 2}
      \<and> evaluate_answer e r (ChineseExplaination (last_vocab vs)) = Inr False
      \<and> give_vocab_hint_or_explanation e (last_vocab vs) r 2 = Inr msg
      \<and> get_row_index_by_phone (user_sheet w) p = Inr i
    \<longrightarrow> completion_effect Vocab p (start_vocab_session e p sv) w (handle_vocab_reply e p r sv w)
      \<and> take 4 (new_events w (snd (handle_vocab_reply e p r sv w)))
           = [Handled Vocab p r, Advanced Vocab p, SessionDel Vocab p,
              Sent p msg (post_ok e (Suc (Suc (Suc (length (trace w))))) p msg)]
      \<and> (\<exists>before_send.
             vocab_sessions before_send p = None
           \<and> vocab_sessions before_send = (vocab_sessions w)(p := None)
           \<and> cursor_advanced Vocab p (user_sheet w) (user_sheet before_send)
           \<and> new_events w before_send = [Handled Vocab p r, Advanced Vocab p, SessionDel Vocab p]
           \<and> handle_vocab_reply e p r sv w
               = start_vocab_session e p sv (snd (send_whatsapp_message e p msg before_send))))"
proof -
  have g1: "a \<notin> {1, 2} \<longrightarrow> give_vocab_hint_or_explanation e row u a = Inl AttemptNeither1Nor2"
    by (simp add: give_vocab_hint_or_explanation_def)
  have g2: "a \<in> {1, 2} \<longrightarrow> give_vocab_hint_or_explanation e row u a \<noteq> Inl AttemptNeither1Nor2"
    using no_guard_lifts(4,5)[of e row u] by (auto simp: guard_free_def)
  have g3: "fst (handle_vocab_reply e p r sv w) \<noteq> Inl AttemptNeither1Nor2"
    using handle_vocab_reply_no_guard[of e p r sv w] by (simp add: guard_free_def)
  have g4: "completion_effect Vocab p (start_vocab_session e p sv) w (handle_vocab_reply e p r sv w)
      \<and> take 4 (new_events w (snd (handle_vocab_reply e p r sv w)))
           = [Handled Vocab p r, Advanced Vocab p, SessionDel Vocab p,
              Sent p msg (post_ok e (Suc (Suc (Suc (length (trace w))))) p msg)]
      \<and> (\<exists>before_send.
             vocab_sessions before_send p = None
           \<and> vocab_sessions before_send = (vocab_sessions w)(p := None)
           \<and> cursor_advanced Vocab p (user_sheet w) (user_sheet before_send)
           \<and> new_events w before_send = [Handled Vocab p r, Advanced Vocab p, SessionDel Vocab p]
           \<and> handle_vocab_reply e p r sv w
               = start_vocab_session e p sv (snd (send_whatsapp_message e p msg before_send)))"
    if h: "vocab_sessions w p = Some vs \<and> v_attempt vs \<notin> {1, 2}
      \<and> evaluate_answer e r (ChineseExplaination (last_vocab vs)) = Inr False
      \<and> give_vocab_hint_or_explanation e (last_vocab vs) r 2 = Inr msg
      \<and> get_row_index_by_phone (user_sheet w) p = Inr i"
  proof -
    from h have att: "v_attempt vs \<noteq> 1" by simp
    show ?thesis
      using vocab_second_incorrect_completes[of w p vs e r msg i sv]
        vocab_exhaustion_order[of w p vs e r msg i sv]
        vocab_exhaustion_state[of w p vs e r msg i sv] h att by blast
  qed
  from g1 g2 g3 g4 show ?thesis by blast
qed


text \<open>The generator called with attempt 3, and the handler on a session whose attempt is 3.\<close>

theorem invalid_attempt_is_refused_by_the_generator_only_witness:
  "give_vocab_hint_or_explanation (demo_env False True True (Responded 200)) word1 ''weak'' 3 = Inl AttemptNeither1Nor2
   \<and> give_vocab_hint_or_explanation (demo_env False True True (Responded 200)) word1 ''weak'' 2 = Inr ''ok''
   \<and> vocab_sessions (vocab_world 3) 85291234567 = Some \<lparr>v_attempt = 3, last_vocab = word1\<rparr>
   \<and> fst (handle_vocab_reply (demo_env False True True (Responded 200)) 85291234567 ''weak''
            [word1, word2] (vocab_world 3)) \<noteq> Inl AttemptNeither1Nor2
   \<and> completion_effect Vocab 85291234567
        (start_vocab_session (demo_env False True True (Responded 200)) 85291234567 [word1, word2])
        (vocab_world 3)
        (handle_vocab_reply (demo_env False True True (Responded 200)) 85291234567 ''weak''
               [word1, word2] (vocab_world 3))
   \<and> take 4 (new_events (vocab_world 3)
        (snd (handle_vocab_reply (demo_env False True True (Responded 200)) 85291234567 ''weak''
               [word1, word2] (vocab_world 3))))
      = [Handled Vocab 85291234567 ''weak'', Advanced Vocab 85291234567, SessionDel Vocab 85291234567,
         Sent 85291234567 ''ok'' True]
   \<and> (\<exists>before_send.
         vocab_sessions before_send 85291234567 = None
       \<and> handle_vocab_reply (demo_env False True True (Responded 200)) 85291234567 ''weak''
             [word1, word2] (vocab_world 3)
           = start_vocab_session (demo_env False True True (Responded 200)) 85291234567 [word1, word2]
               (snd (send_whatsapp_message (demo_env False True True (Responded 200)) 85291234567 ''ok''
                      before_send)))"
proof -
  let ?P = "85291234567 :: int"
  let ?e = "demo_env False True True (Responded 200)"
  let ?vs = "\<lparr>v_attempt = 3, last_vocab = word1\<rparr>"
  note T = invalid_attempt_is_refused_by_the_generator_only
  have a3: "(3::int) \<notin> {1, 2}" by simp
  note g = T[THEN conjunct1, THEN mp, OF a3]
  have two: "give_vocab_hint_or_explanation ?e word1 ''weak'' 2 = Inr ''ok''"
    by (simp add: fixture_defs more_llm_defs)
  have h: "vocab_sessions (vocab_world 3) ?P = Some ?vs \<and> v_attempt ?vs \<notin> {1, 2}
      \<and> evaluate_answer ?e ''weak'' (ChineseExplaination (last_vocab ?vs)) = Inr False
      \<and> give_vocab_hint_or_explanation ?e (last_vocab ?vs) ''weak'' 2 = Inr ''ok''
      \<and> get_row_index_by_phone (user_sheet (vocab_world 3)) ?P = Inr 2"
    by (simp add: fixture_defs more_llm_defs more_sheet_defs)
  note n = T[THEN conjunct2, THEN conjunct2, THEN conjunct1]
  note c = T[THEN conjunct2, THEN conjunct2, THEN conjunct2, THEN mp, OF h]
  have ok: "post_ok ?e n ?P t" for n t by (simp add: post_ok_def fixture_defs)
  have c1: "completion_effect Vocab ?P (start_vocab_session ?e ?P [word1, word2]) (vocab_world 3)
        (handle_vocab_reply ?e ?P ''weak'' [word1, word2] (vocab_world 3))"
    using c[of "[word1, word2]", THEN conjunct1] .
  have c2: "take 4 (new_events (vocab_world 3)
        (snd (handle_vocab_reply ?e ?P ''weak'' [word1, word2] (vocab_world 3))))
      = [Handled Vocab ?P ''weak'', Advanced Vocab ?P, SessionDel Vocab ?P, Sent ?P ''ok'' True]"
    using c[of "[word1, word2]", THEN conjunct2, THEN conjunct1] by (simp add: ok)
  have c3: "\<exists>before_send.
         vocab_sessions before_send ?P = None
       \<and> handle_vocab_reply ?e ?P ''weak'' [word1, word2] (vocab_world 3)
           = start_vocab_session ?e ?P [word1, word2]
               (snd (send_whatsapp_message ?e ?P ''ok'' before_send))"
    using c[of "[word1, word2]", THEN conjunct2, THEN conjunct2] by blast
  from g[of ?e word1 "''weak''"] two h n[of ?e ?P "''weak''" "[word1, word2]" "vocab_world 3"] c1 c2 c3
  show ?thesis by simp
qed

end
